theory Spec2Isabelle
  imports Complex_Main "HOL-Library.Multiset"
begin

section \<open>JavaScript strings\<close>

text \<open>
  A JavaScript string is modelled as an Isabelle \<^typ>\<open>string\<close>, one \<^typ>\<open>char\<close> per code
  unit. The model is exact for texts of 7-bit ASCII code units: the white space of
  \<^verbatim>\<open>\s\<close> and \<^verbatim>\<open>trim()\<close> below U+0080 is TAB, LF, VT, FF, CR and SPACE, and
  \<^verbatim>\<open>toLowerCase()\<close>/\<^verbatim>\<open>toUpperCase()\<close> change exactly the letters A-Z/a-z there.
\<close>

definition is_ws :: "char \<Rightarrow> bool" where
  "is_ws c \<longleftrightarrow> c \<in> set [CHR 0x09, CHR 0x0A, CHR 0x0B, CHR 0x0C, CHR 0x0D, CHR 0x20]"

definition upper_letters :: string where
  "upper_letters = ''ABCDEFGHIJKLMNOPQRSTUVWXYZ''"

definition lower_letters :: string where
  "lower_letters = ''abcdefghijklmnopqrstuvwxyz''"

definition lower_char :: "char \<Rightarrow> char" where
  "lower_char c = (case map_of (zip upper_letters lower_letters) c of Some d \<Rightarrow> d | None \<Rightarrow> c)"

definition upper_char :: "char \<Rightarrow> char" where
  "upper_char c = (case map_of (zip lower_letters upper_letters) c of Some d \<Rightarrow> d | None \<Rightarrow> c)"

definition toLowerCase :: "string \<Rightarrow> string" where
  "toLowerCase s = map lower_char s"

definition toUpperCase :: "string \<Rightarrow> string" where
  "toUpperCase s = map upper_char s"

definition trim :: "string \<Rightarrow> string" where
  "trim s = rev (dropWhile is_ws (rev (dropWhile is_ws s)))"

text \<open>\<^verbatim>\<open>s.substring(0, n)\<close> for \<open>0 \<le> n\<close>.\<close>

definition substring0 :: "string \<Rightarrow> nat \<Rightarrow> string" where
  "substring0 s n = take n s"

text \<open>\<^verbatim>\<open>xs.join(sep)\<close>.\<close>

fun join :: "string \<Rightarrow> string list \<Rightarrow> string" where
  "join sep [] = []"
| "join sep [x] = x"
| "join sep (x # y # ys) = x @ sep @ join sep (y # ys)"

text \<open>\<^verbatim>\<open>s.includes(t)\<close>: \<open>t\<close> occurs in \<open>s\<close> as a contiguous substring.\<close>

fun starts_with :: "string \<Rightarrow> string \<Rightarrow> bool" where
  "starts_with [] s = True"
| "starts_with (p # ps) [] = False"
| "starts_with (p # ps) (c # cs) = (p = c \<and> starts_with ps cs)"

fun js_includes :: "string \<Rightarrow> string \<Rightarrow> bool" where
  "js_includes [] t = (t = [])"
| "js_includes (c # cs) t = (starts_with t (c # cs) \<or> js_includes cs t)"

text \<open>
  \<^verbatim>\<open>s.split(/\s+/)\<close>: the pieces between the maximal runs of white space. The flag says
  whether the scan is inside a run; the empty string gives the one piece \<open>''''\<close>, and white
  space at either end gives an empty first or last piece, as in JavaScript.
\<close>

fun split_ws_from :: "bool \<Rightarrow> string \<Rightarrow> string \<Rightarrow> string list" where
  "split_ws_from inrun cur [] = [cur]"
| "split_ws_from inrun cur (c # cs) =
     (if is_ws c then (if inrun then split_ws_from True cur cs else cur # split_ws_from True [] cs)
      else split_ws_from False (cur @ [c]) cs)"

definition split_ws :: "string \<Rightarrow> string list" where
  "split_ws s = split_ws_from False [] s"

section \<open>Regular expressions of the chat handler\<close>

text \<open>
  The handler's tests are regular expressions with the \<^verbatim>\<open>i\<close> flag over literals, \<^verbatim>\<open>\s+\<close>,
  alternation and \<^verbatim>\<open>?\<close>. \<open>rx_rems r s\<close> lists the remainders of \<open>s\<close> after every way
  \<open>r\<close> can match a prefix of \<open>s\<close>; a backtracking matcher finds a match exactly when one
  exists. All pattern characters are ASCII, so under the \<^verbatim>\<open>i\<close> flag (without \<^verbatim>\<open>u\<close>) a
  pattern character matches a code unit exactly when their ASCII upper-case forms agree.
\<close>

datatype rx = Lit string | Spaces | Seq rx rx | Alt rx rx | Opt rx

fun starts_with_ci :: "string \<Rightarrow> string \<Rightarrow> bool" where
  "starts_with_ci [] s = True"
| "starts_with_ci (p # ps) [] = False"
| "starts_with_ci (p # ps) (c # cs) = (upper_char p = upper_char c \<and> starts_with_ci ps cs)"

fun ws_rems :: "string \<Rightarrow> string list" where
  "ws_rems [] = []"
| "ws_rems (c # cs) = (if is_ws c then cs # ws_rems cs else [])"

fun rx_rems :: "rx \<Rightarrow> string \<Rightarrow> string list" where
  "rx_rems (Lit l) s = (if starts_with_ci l s then [drop (length l) s] else [])"
| "rx_rems Spaces s = ws_rems s"
| "rx_rems (Seq a b) s = concat (map (rx_rems b) (rx_rems a s))"
| "rx_rems (Alt a b) s = rx_rems a s @ rx_rems b s"
| "rx_rems (Opt a) s = rx_rems a s @ [s]"

text \<open>\<^verbatim>\<open>/^r/i.test(s)\<close> and \<^verbatim>\<open>/^r$/i.test(s)\<close>.\<close>

definition test_prefix :: "rx \<Rightarrow> string \<Rightarrow> bool" where
  "test_prefix r s \<longleftrightarrow> rx_rems r s \<noteq> []"

definition test_whole :: "rx \<Rightarrow> string \<Rightarrow> bool" where
  "test_whole r s \<longleftrightarrow> [] \<in> set (rx_rems r s)"

fun alts :: "rx list \<Rightarrow> rx" where
  "alts [] = Lit []"
| "alts [r] = r"
| "alts (r # rs) = Alt r (alts rs)"

fun seqs :: "rx list \<Rightarrow> rx" where
  "seqs [] = Lit []"
| "seqs [r] = r"
| "seqs (r # rs) = Seq r (seqs rs)"


section \<open>JSON values\<close>

datatype json = JNull | JBool bool | JNum real | JStr string | JArr "json list"
  | JObj "(string \<times> json) list"

section \<open>The similarity search of the database\<close>

text \<open>
  The table \<^verbatim>\<open>embeddings\<close>. Every column but \<^verbatim>\<open>id\<close> and \<^verbatim>\<open>content\<close> is nullable. The
  type \<open>'e\<close> is \<^verbatim>\<open>vector(768)\<close>; the cosine-distance operator \<^verbatim>\<open><=>\<close> of the vector
  extension is the parameter \<open>cosine_distance\<close> of the search. Floating-point numbers are
  read as the reals they denote, and the search is the exact one that the query states.
\<close>

type_synonym uuid = string

record 'e embedding_row =
  e_id :: uuid
  e_content :: string
  e_embedding :: "'e option"
  e_metadata :: json
  e_source_type :: "string option"
  e_source_id :: "uuid option"
  e_project_id :: "uuid option"
  e_user_id :: "uuid option"

record similarity_row =
  row_id :: uuid
  row_content :: string
  similarity :: real
  row_metadata :: json
  source_type :: "string option"
  source_id :: "uuid option"

text \<open>
  The \<^verbatim>\<open>WHERE\<close> clause of \<^verbatim>\<open>similarity_search\<close>: a row is kept when the condition is true,
  so a row whose compared column is \<^verbatim>\<open>NULL\<close> is dropped when the filter is given, and a row
  without embedding is always dropped. The result pairs the row with its distance.
\<close>

definition matches_filter :: "uuid option \<Rightarrow> uuid option \<Rightarrow> bool" where
  "matches_filter flt col \<longleftrightarrow> (case flt of None \<Rightarrow> True | Some f \<Rightarrow> col = Some f)"

definition candidate ::
  "('e \<Rightarrow> 'e \<Rightarrow> real) \<Rightarrow> 'e \<Rightarrow> real \<Rightarrow> uuid option \<Rightarrow> uuid option \<Rightarrow> 'e embedding_row
    \<Rightarrow> (real \<times> 'e embedding_row) option" where
  "candidate cosine_distance query_embedding match_threshold filter_project_id filter_user_id e =
     (case e_embedding e of
        None \<Rightarrow> None
      | Some v \<Rightarrow>
          if matches_filter filter_project_id (e_project_id e)
             \<and> matches_filter filter_user_id (e_user_id e)
             \<and> 1 - cosine_distance v query_embedding > match_threshold
          then Some (cosine_distance v query_embedding, e) else None)"

definition select_row :: "real \<times> 'e embedding_row \<Rightarrow> similarity_row" where
  "select_row de =
     \<lparr>row_id = e_id (snd de), row_content = e_content (snd de), similarity = 1 - fst de,
      row_metadata = e_metadata (snd de), source_type = e_source_type (snd de),
      source_id = e_source_id (snd de)\<rparr>"

text \<open>
  \<^verbatim>\<open>similarity_search(query_embedding, match_threshold DEFAULT 0.4, match_count DEFAULT 10,
  filter_project_id DEFAULT NULL, filter_user_id DEFAULT NULL)\<close>: an argument that is not
  supplied is \<open>None\<close>. \<^verbatim>\<open>ORDER BY e.embedding <=> query_embedding\<close> sorts by ascending
  distance (rows at equal distance stay in scan order here; SQL leaves their order open), and
  \<^verbatim>\<open>LIMIT\<close> raises an error for a negative count.
\<close>

datatype sql_error = Negative_limit

definition similarity_search ::
  "('e \<Rightarrow> 'e \<Rightarrow> real) \<Rightarrow> 'e embedding_row list \<Rightarrow> 'e \<Rightarrow> real option \<Rightarrow> int option
    \<Rightarrow> uuid option \<Rightarrow> uuid option \<Rightarrow> sql_error + similarity_row list" where
  "similarity_search cosine_distance embeddings query_embedding match_threshold match_count
      filter_project_id filter_user_id =
     (let threshold = (case match_threshold of None \<Rightarrow> 0.4 | Some t \<Rightarrow> t);
          count = (case match_count of None \<Rightarrow> 10 | Some n \<Rightarrow> n);
          selected = List.map_filter
            (candidate cosine_distance query_embedding threshold filter_project_id
               filter_user_id) embeddings
      in if count < 0 then Inl Negative_limit
         else Inr (map select_row (take (nat count) (sort_key fst selected))))"

section \<open>The chat handler\<close>

subsection \<open>Retrieval sufficiency and the gap filter\<close>

definition hasRelevantContent :: "similarity_row list \<Rightarrow> bool" where
  "hasRelevantContent similarContent \<longleftrightarrow>
     length similarContent > 0 \<and> (\<exists>item \<in> set similarContent. similarity item > 0.5)"

definition commonGreetings :: "string list" where
  "commonGreetings =
     [''hi'', ''hey'', ''hello'', ''test'', ''hola'', ''yo'', ''sup'', ''howdy'', ''greetings'',
      ''good morning'', ''good afternoon'', ''good evening'', ''thanks'', ''thank you'',
      ''help'', ''help me'', ''can you help'', ''please help'', ''i need help'',
      ''what can you do'', ''what do you do'']"

definition help_request_rx :: rx where
  "help_request_rx =
     seqs [alts [Lit ''can you'', Lit ''could you'', Lit ''would you'', Lit ''will you'',
                 Lit ''please''],
           Spaces, alts [Lit ''help'', Lit ''assist'']]"

definition apostrophe :: char where
  "apostrophe = CHR 0x27"

definition response_rx :: rx where
  "response_rx =
     alts [Lit ''none of this'',
           seqs [Lit ''this '', alts [Lit (''didn'' @ [apostrophe] @ ''t''), Lit ''did not''],
                 Lit '' help''],
           Lit ''not helpful'',
           seqs [Lit ''can'', alts [Lit ([apostrophe] @ ''t''), Lit '' not''], Lit '' help''],
           Lit ''forward the issue'', Lit ''contact support'', Lit ''talk to someone'']"

definition issue_tail_rx :: rx where
  "issue_tail_rx =
     seqs [alts [Lit ''an issue'', Lit ''a problem'', Lit ''a question''],
           Opt (alts [seqs [Spaces, Lit ''with''], seqs [Spaces, Lit ''about'']]),
           Opt (seqs [Spaces, Lit ''this'']),
           Opt (Lit ''.'')]"

definition i_have_rx :: rx where
  "i_have_rx = seqs [Lit ''i have '', issue_tail_rx]"

definition i_am_having_rx :: rx where
  "i_am_having_rx =
     seqs [Lit ''i'', alts [Lit ([apostrophe] @ ''m''), Lit '' am''], Lit '' having '',
           issue_tail_rx]"

definition isSubstantialQuery :: "string \<Rightarrow> bool" where
  "isSubstantialQuery query \<longleftrightarrow>
     length (trim query) > 15
     \<and> \<not> (\<exists>greeting \<in> set commonGreetings. toLowerCase (trim query) = greeting)
     \<and> length (split_ws (trim query)) > 3
     \<and> \<not> test_prefix help_request_rx (trim query)"

definition looksLikeResponse :: "string \<Rightarrow> bool" where
  "looksLikeResponse query \<longleftrightarrow> test_prefix response_rx (trim query)"

definition isJustIssueStatement :: "string \<Rightarrow> bool" where
  "isJustIssueStatement query \<longleftrightarrow>
     test_whole i_have_rx (trim query) \<or> test_whole i_am_having_rx (trim query)"

subsection \<open>The classifier\<close>

text \<open>
  \<^verbatim>\<open>isQuestionAnIssue\<close> asks the text model once. The reply is the outcome of that call: the
  call or the reading of its body throws, the response is not a success, or the response is
  a success with the text at \<^verbatim>\<open>candidates[0].content.parts[0].text\<close>, if there is one.
\<close>

datatype classifier_reply = Call_throws | Call_not_ok | Call_ok "string option"

definition isQuestionAnIssue :: "classifier_reply \<Rightarrow> bool" where
  "isQuestionAnIssue reply =
     (case reply of
        Call_throws \<Rightarrow> False
      | Call_not_ok \<Rightarrow> False
      | Call_ok text \<Rightarrow>
          (let responseText = (case text of None \<Rightarrow> [] | Some t \<Rightarrow> t)
           in js_includes (toUpperCase (trim responseText)) ''ISSUE''))"

datatype gap_type = ISSUE | INQUIRY

definition classify :: "classifier_reply \<Rightarrow> gap_type" where
  "classify reply = (if isQuestionAnIssue reply then ISSUE else INQUIRY)"


subsection \<open>Request, environment and result\<close>

datatype chat_role = User | Assistant

record chat_message =
  role :: chat_role
  msg_content :: string

text \<open>
  The JSON body of a chat request. The handler reads \<^verbatim>\<open>query\<close>, \<^verbatim>\<open>chatHistory\<close> and
  \<^verbatim>\<open>projectSlug\<close>; a field that is absent behaves as the empty string at the handler's
  \<^verbatim>\<open>!query\<close> and \<^verbatim>\<open>!projectSlug\<close> tests. The client also sends \<^verbatim>\<open>threshold\<close>.
\<close>

record chat_body =
  req_query :: string
  req_chatHistory :: "chat_message list option"
  req_projectSlug :: string
  req_threshold :: "real option"

record chat_request =
  is_options :: bool
  body :: "string + chat_body"

record project_info =
  p_id :: uuid
  p_name :: string
  p_description :: string
  p_plan :: "string option"
  p_user_id :: uuid

datatype gap_table = Issues | Inquiries

record gap_record =
  into :: gap_table
  title :: string
  description :: string
  inquiry_content :: "string option"
  severity :: "string option"
  status :: "string option"
  tags :: "string list"
  user_id :: uuid
  project_id :: uuid

datatype insert_outcome = Inserted | Insert_error | Insert_throws

record 'e rpc_args =
  query_embedding :: 'e
  match_threshold :: "real option"
  match_count :: "int option"
  filter_project_id :: "uuid option"
  filter_user_id :: "uuid option"

text \<open>
  What the handler's collaborators answer: \<open>credentials\<close> is the failure, if any, of reading the
  service account key, getting the access token and creating the database client;
  \<open>getProjectInfo\<close>, \<open>generateEmbedding\<close> and \<open>generateResponse\<close> give the error message
  of the exception they throw or their result, as functions of the arguments the handler
  passes to them.
\<close>

record 'e chat_env =
  credentials :: "string option"
  getProjectInfo :: "string \<Rightarrow> string + project_info"
  generateEmbedding :: "string \<Rightarrow> string + 'e"
  distance :: "'e \<Rightarrow> 'e \<Rightarrow> real"
  embeddings :: "'e embedding_row list"
  generateResponse :: "string \<Rightarrow> string \<Rightarrow> chat_message list \<Rightarrow> project_info \<Rightarrow> string + string"
  classifier :: "string \<Rightarrow> classifier_reply"
  insert_gap :: "gap_record \<Rightarrow> insert_outcome"

record chat_payload =
  response :: string
  context_rows :: "similarity_row list option"
  knowledgeGap :: bool
  knowledgeGapType :: "gap_type option"
  projectInfo :: "string \<times> string \<times> string option"

datatype chat_response = Preflight | Success chat_payload | Failure string

text \<open>The response together with the calls made on the database.\<close>

record 'e chat_result =
  http :: chat_response
  rpc_log :: "'e rpc_args list"
  insert_log :: "gap_record list"

subsection \<open>The handler\<close>

text \<open>
  \<^verbatim>\<open>searchSimilarContent(supabase, queryEmbedding, projectId, threshold = 0.4, limit = 5)\<close>
  calls \<^verbatim>\<open>similarity_search\<close> without \<^verbatim>\<open>filter_user_id\<close>; an argument left out takes its
  default. It returns the arguments of the call with the rows or the error.
\<close>

definition searchSimilarContent ::
  "'e chat_env \<Rightarrow> 'e \<Rightarrow> uuid \<Rightarrow> real option \<Rightarrow> int option
    \<Rightarrow> 'e rpc_args \<times> (string + similarity_row list)" where
  "searchSimilarContent env queryEmbedding projectId threshold_arg limit_arg =
     (let args = \<lparr>query_embedding = queryEmbedding,
                   match_threshold = Some (case threshold_arg of None \<Rightarrow> 0.4 | Some t \<Rightarrow> t),
                   match_count = Some (case limit_arg of None \<Rightarrow> 5 | Some n \<Rightarrow> n),
                   filter_project_id = Some projectId,
                   filter_user_id = None\<rparr>
      in (args,
          case similarity_search (distance env) (embeddings env) (query_embedding args)
                 (match_threshold args) (match_count args) (filter_project_id args)
                 (filter_user_id args) of
            Inl err \<Rightarrow> Inl ''LIMIT must not be negative''
          | Inr data \<Rightarrow> Inr data))"

definition context_line :: "similarity_row \<Rightarrow> string" where
  "context_line item =
     (case source_type item of
        None \<Rightarrow> []
      | Some t \<Rightarrow> if t = [] then [] else ''['' @ toUpperCase t @ ''] '') @ row_content item"

definition context_text :: "similarity_row list \<Rightarrow> string" where
  "context_text similarContent = join [CHR 0x0A, CHR 0x0A] (map context_line similarContent)"

definition gap_title :: "string \<Rightarrow> string" where
  "gap_title query =
     ''Knowledge Gap: '' @ (if length query > 27 then substring0 query 24 @ ''...'' else query)"

definition gap_tags :: "string list" where
  "gap_tags = [''ai-gap'', ''needs-review'', ''auto-detected'']"

definition new_gap_record :: "gap_type \<Rightarrow> string \<Rightarrow> project_info \<Rightarrow> gap_record" where
  "new_gap_record t query info =
     (case t of
        ISSUE \<Rightarrow>
          \<lparr>into = Issues, title = gap_title query, description = query, inquiry_content = None,
           severity = Some ''medium'', status = Some ''open'', tags = gap_tags,
           user_id = p_user_id info, project_id = p_id info\<rparr>
      | INQUIRY \<Rightarrow>
          \<lparr>into = Inquiries, title = gap_title query, description = query,
           inquiry_content = Some query, severity = None, status = None, tags = gap_tags,
           user_id = p_user_id info, project_id = p_id info\<rparr>)"

definition qualifies :: "string \<Rightarrow> similarity_row list \<Rightarrow> bool" where
  "qualifies query similarContent \<longleftrightarrow>
     \<not> hasRelevantContent similarContent \<and> isSubstantialQuery query
     \<and> \<not> looksLikeResponse query \<and> \<not> isJustIssueStatement query"

text \<open>The handler from the search result on: the answer is generated first, then the gap is
  classified and logged, and a failed insert is swallowed.\<close>

definition answer ::
  "'e chat_env \<Rightarrow> chat_body \<Rightarrow> project_info \<Rightarrow> 'e rpc_args \<Rightarrow> similarity_row list
    \<Rightarrow> 'e chat_result" where
  "answer env b info args similarContent =
     (case generateResponse env (req_query b) (context_text similarContent)
             (case req_chatHistory b of None \<Rightarrow> [] | Some h \<Rightarrow> h) info of
        Inl msg \<Rightarrow> \<lparr>http = Failure msg, rpc_log = [args], insert_log = []\<rparr>
      | Inr text \<Rightarrow>
          (let gap = qualifies (req_query b) similarContent;
               t = classify (classifier env (req_query b));
               new_record = new_gap_record t (req_query b) info;
               knowledgeGapCreated = (gap \<and> insert_gap env new_record = Inserted)
           in \<lparr>http = Success
                 \<lparr>response = text,
                  context_rows = (if length similarContent > 0 then Some similarContent else None),
                  knowledgeGap = (\<not> hasRelevantContent similarContent \<and> knowledgeGapCreated
                                  \<and> isSubstantialQuery (req_query b)),
                  knowledgeGapType = (if knowledgeGapCreated then Some t else None),
                  projectInfo = (p_name info, p_description info, p_plan info)\<rparr>,
               rpc_log = [args],
               insert_log = (if gap then [new_record] else [])\<rparr>))"

definition failed :: "string \<Rightarrow> 'e chat_result" where
  "failed msg = \<lparr>http = Failure msg, rpc_log = [], insert_log = []\<rparr>"

definition chat_query :: "'e chat_env \<Rightarrow> chat_request \<Rightarrow> 'e chat_result" where
  "chat_query env req =
     (if is_options req then \<lparr>http = Preflight, rpc_log = [], insert_log = []\<rparr>
      else
       (case body req of
          Inl msg \<Rightarrow> failed msg
        | Inr b \<Rightarrow>
           (if req_query b = [] then failed ''Query is required''
            else if req_projectSlug b = [] then failed ''Project slug is required''
            else
             (case credentials env of
                Some msg \<Rightarrow> failed msg
              | None \<Rightarrow>
                 (case getProjectInfo env (req_projectSlug b) of
                    Inl msg \<Rightarrow> failed msg
                  | Inr info \<Rightarrow>
                     (case generateEmbedding env (req_query b) of
                        Inl msg \<Rightarrow> failed msg
                      | Inr queryEmbedding \<Rightarrow>
                         (case searchSimilarContent env queryEmbedding (p_id info) (Some 0.4)
                                 None of
                            (args, Inl msg) \<Rightarrow>
                              \<lparr>http = Failure msg, rpc_log = [args], insert_log = []\<rparr>
                          | (args, Inr similarContent) \<Rightarrow>
                              answer env b info args similarContent)))))))"

section \<open>The search of the embedding service\<close>

text \<open>
  \<^verbatim>\<open>EmbeddingService.searchSimilar(query, projectId, userId, options)\<close>. The options
  \<^verbatim>\<open>threshold\<close> and \<^verbatim>\<open>limit\<close> default to 0.4 and 10; the rows that come back from the database
  are filtered by \<^verbatim>\<open>sourceType\<close> when the option is a non-empty string. Any failure, of the
  embedding of the query or of the database call, is rethrown as one error.
\<close>

record search_options =
  opt_threshold :: "real option"
  opt_limit :: "int option"
  opt_sourceType :: "string option"

definition threshold_of :: "search_options \<Rightarrow> real" where
  "threshold_of options = (case opt_threshold options of None \<Rightarrow> 0.4 | Some t \<Rightarrow> t)"

definition limit_of :: "search_options \<Rightarrow> int" where
  "limit_of options = (case opt_limit options of None \<Rightarrow> 10 | Some n \<Rightarrow> n)"

definition of_source_type :: "string option \<Rightarrow> similarity_row \<Rightarrow> bool" where
  "of_source_type sourceType item \<longleftrightarrow>
     (case sourceType of
        None \<Rightarrow> True
      | Some t \<Rightarrow> if t = [] then True else source_type item = Some t)"

definition searchSimilar ::
  "(string \<Rightarrow> string + 'e) \<Rightarrow> ('e \<Rightarrow> 'e \<Rightarrow> real) \<Rightarrow> 'e embedding_row list
    \<Rightarrow> string \<Rightarrow> uuid \<Rightarrow> uuid \<Rightarrow> search_options \<Rightarrow> string + similarity_row list" where
  "searchSimilar embedder cosine_distance stored query projectId userId options =
     (case embedder query of
        Inl msg \<Rightarrow> Inl ''Failed to search embeddings''
      | Inr queryEmbedding \<Rightarrow>
         (case similarity_search cosine_distance stored queryEmbedding
                 (Some (threshold_of options)) (Some (limit_of options))
                 (Some projectId) (Some userId) of
            Inl err \<Rightarrow> Inl ''Failed to search embeddings''
          | Inr data \<Rightarrow> Inr (filter (of_source_type (opt_sourceType options)) data)))"

text \<open>A row is in the scope of a search and above its threshold.\<close>

definition eligible ::
  "('e \<Rightarrow> 'e \<Rightarrow> real) \<Rightarrow> 'e \<Rightarrow> real \<Rightarrow> uuid option \<Rightarrow> uuid option \<Rightarrow> 'e embedding_row
    \<Rightarrow> bool" where
  "eligible cosine_distance q t pid uid e \<longleftrightarrow>
     (case e_embedding e of
        None \<Rightarrow> False
      | Some v \<Rightarrow> matches_filter pid (e_project_id e) \<and> matches_filter uid (e_user_id e)
                  \<and> 1 - cosine_distance v q > t)"

text \<open>The result row of a stored row that has an embedding.\<close>

definition result_of :: "('e \<Rightarrow> 'e \<Rightarrow> real) \<Rightarrow> 'e \<Rightarrow> 'e embedding_row \<Rightarrow> similarity_row" where
  "result_of cosine_distance q e =
     (case e_embedding e of
        None \<Rightarrow> select_row (0, e)
      | Some v \<Rightarrow> select_row (cosine_distance v q, e))"

section \<open>Embedding a text\<close>

subsection \<open>Reading a JSON value in JavaScript\<close>

text \<open>
  The value of a property read is a JSON value, \<^verbatim>\<open>undefined\<close>, or a function (a method
  of a prototype). The handlers read the five properties below; of these, only \<^verbatim>\<open>values\<close>
  exists on a prototype, as \<^verbatim>\<open>Array.prototype.values\<close>. In an object parsed from JSON a
  repeated key has its last value.
\<close>

datatype jsval = Undefined | Fn | J json








subsection \<open>The embedding function of the server\<close>






subsection \<open>The embedding service of the client\<close>





section \<open>Chunking\<close>

record chunk =
  content :: string
  summary :: string
  chunk_keywords :: "string list"
  chunkIndex :: nat
  totalChunks :: nat

subsection \<open>Summaries and keywords of the fallback chunkers\<close>

definition digit_char :: "nat \<Rightarrow> char" where
  "digit_char d = ''0123456789'' ! d"

fun show_nat :: "nat \<Rightarrow> string" where
  "show_nat n = (if n < 10 then [digit_char n] else show_nat (n div 10) @ [digit_char (n mod 10)])"

declare show_nat.simps [simp del]

definition is_word_char :: "char \<Rightarrow> bool" where
  "is_word_char c \<longleftrightarrow> c \<in> set (upper_letters @ lower_letters @ ''0123456789_'')"

definition stop_words :: "string list" where
  "stop_words =
     [''this'', ''that'', ''with'', ''have'', ''will'', ''been'', ''from'', ''they'', ''know'',
      ''want'', ''been'', ''good'', ''much'', ''some'', ''time'', ''very'', ''when'', ''come'',
      ''here'', ''just'', ''like'', ''long'', ''make'', ''many'', ''over'', ''such'', ''take'',
      ''than'', ''them'', ''well'', ''were'']"

text \<open>The elements of a list in the order of their first occurrences, as
  \<^verbatim>\<open>[...new Set(words)]\<close>.\<close>

definition unique :: "'a list \<Rightarrow> 'a list" where
  "unique xs = rev (remdups (rev xs))"

definition extractSimpleKeywords :: "string \<Rightarrow> string list" where
  "extractSimpleKeywords text =
     (let replaced = map (\<lambda>c. if is_word_char c \<or> is_ws c then c else CHR '' '')
                       (toLowerCase text);
          words = filter (\<lambda>word. word \<notin> set stop_words)
                    (filter (\<lambda>word. length word > 3) (split_ws replaced))
      in take 5 (unique words))"

subsection \<open>The fallback of the chunking function: whole sentences\<close>

text \<open>
  \<^verbatim>\<open>content.split(/(?<=[.!?])\s+/)\<close>: the text is cut at every maximal run of white space
  that follows one of the characters \<^verbatim>\<open>.\<close>, \<^verbatim>\<open>!\<close> and \<^verbatim>\<open>?\<close>; the run is dropped. The scan
  remembers whether the last character read was such a character, or whether it is inside a
  run that is being dropped. White space after any other character belongs to the sentence.
\<close>

definition is_end_punct :: "char \<Rightarrow> bool" where
  "is_end_punct c \<longleftrightarrow> c \<in> set ''.!?''"

datatype scan = After_punct | After_other | In_gap

definition scan_of :: "char \<Rightarrow> scan" where
  "scan_of c = (if is_end_punct c then After_punct else After_other)"

fun sentences_from :: "scan \<Rightarrow> string \<Rightarrow> string \<Rightarrow> string list" where
  "sentences_from st cur [] = [cur]"
| "sentences_from st cur (c # cs) =
     (if is_ws c then
        (case st of
           After_punct \<Rightarrow> cur # sentences_from In_gap [] cs
         | In_gap \<Rightarrow> sentences_from In_gap cur cs
         | After_other \<Rightarrow> sentences_from After_other (cur @ [c]) cs)
      else sentences_from (scan_of c) (cur @ [c]) cs)"

definition split_sentences :: "string \<Rightarrow> string list" where
  "split_sentences s = sentences_from After_other [] s"

definition make_chunk :: "string \<Rightarrow> nat \<Rightarrow> nat \<Rightarrow> chunk" where
  "make_chunk chunkContent n total_count =
     \<lparr>content = chunkContent,
      summary = ''Chunk '' @ show_nat (n + 1) @ '' of content'',
      chunk_keywords = extractSimpleKeywords chunkContent,
      chunkIndex = n + 1,
      totalChunks = total_count\<rparr>"

text \<open>
  The loop of \<^verbatim>\<open>fallbackChunking\<close> over the sentences, with the chunks pushed so far, the
  sentences of the current chunk and their number of words, and the push of the last chunk
  after the loop. The number of words of a sentence is the number of pieces of
  \<^verbatim>\<open>sentence.split(/\s+/)\<close>.
\<close>

fun chunk_sentences ::
  "int \<Rightarrow> string list \<Rightarrow> chunk list \<Rightarrow> string list \<Rightarrow> nat \<Rightarrow> chunk list" where
  "chunk_sentences maxWords [] chunks currentChunk wordCount =
     (if length currentChunk > 0
      then chunks @ [make_chunk (join '' '' currentChunk) (length chunks) 0]
      else chunks)"
| "chunk_sentences maxWords (sentence # sentences) chunks currentChunk wordCount =
     (let sentenceWords = length (split_ws sentence)
      in if int (wordCount + sentenceWords) > maxWords \<and> length currentChunk > 0
         then chunk_sentences maxWords sentences
                (chunks @ [make_chunk (join '' '' currentChunk) (length chunks) 0])
                [sentence] sentenceWords
         else chunk_sentences maxWords sentences chunks (currentChunk @ [sentence])
                (wordCount + sentenceWords))"

definition fallbackChunking :: "string \<Rightarrow> int \<Rightarrow> chunk list" where
  "fallbackChunking text maxWords =
     (let chunks = chunk_sentences maxWords (split_sentences text) [] [] 0
      in map (\<lambda>chunk. chunk\<lparr>totalChunks := length chunks\<rparr>) chunks)"

subsection \<open>The chunking function of the server\<close>

text \<open>
  The outcome of the model-assisted path, from the parsing of the service account key to the
  parsed answer of the model: an exception, or the array of chunks that \<^verbatim>\<open>JSON.parse\<close>
  gives, taken at its declared type \<^verbatim>\<open>SemanticChunk[]\<close>. It depends on the content and the
  word limit of the prompt.
\<close>

datatype oracle_outcome = Oracle_throws string | Oracle_chunks "chunk list"

record chunk_body =
  content_field :: "string option"
  maxWordsPerChunk :: "int option"

record chunk_env =
  key_error :: "string option"
  segmentation :: "string \<Rightarrow> int \<Rightarrow> oracle_outcome"
  service_reachable :: bool

datatype chunk_response = Chunk_preflight | Chunks_ok "chunk list" | Chunk_failure string

text \<open>\<^verbatim>\<open>chunks.map((chunk, index) => ({...chunk, chunkIndex: index + 1, totalChunks:
  chunks.length}))\<close>.\<close>

definition processedChunks :: "chunk list \<Rightarrow> chunk list" where
  "processedChunks chunks =
     map (\<lambda>(index, chunk). chunk\<lparr>chunkIndex := index + 1, totalChunks := length chunks\<rparr>)
       (enumerate 0 chunks)"

text \<open>
  The handler. The body of a request can be read once. When the service account key is
  missing the exception is thrown before the body is read, and the handler of the exception
  reads the body and answers with the fallback for 75 words, whatever limit was asked;
  it throws itself when the body cannot be read or has no content. Every later exception
  reaches the same handler after the body has been read, so that its second read throws and
  the answer is the failure.
\<close>

definition chunk_content :: "chunk_env \<Rightarrow> bool \<Rightarrow> string + chunk_body \<Rightarrow> chunk_response" where
  "chunk_content env is_preflight request_body =
     (if is_preflight then Chunk_preflight
      else
       (case key_error env of
          Some msg \<Rightarrow>
           (case request_body of
              Inl unreadable \<Rightarrow> Chunk_failure msg
            | Inr b \<Rightarrow>
               (case content_field b of
                  None \<Rightarrow> Chunk_failure msg
                | Some text \<Rightarrow> Chunks_ok (fallbackChunking text 75)))
        | None \<Rightarrow>
           (case request_body of
              Inl unreadable \<Rightarrow> Chunk_failure unreadable
            | Inr b \<Rightarrow>
               (case content_field b of
                  None \<Rightarrow> Chunk_failure ''Content is required''
                | Some text \<Rightarrow>
                   (if text = [] then Chunk_failure ''Content is required''
                    else
                     (case segmentation env text
                             (case maxWordsPerChunk b of None \<Rightarrow> 75 | Some n \<Rightarrow> n) of
                        Oracle_throws msg \<Rightarrow> Chunk_failure msg
                      | Oracle_chunks chunks \<Rightarrow> Chunks_ok (processedChunks chunks)))))))"

subsection \<open>The chunker of the client\<close>

text \<open>\<^verbatim>\<open>xs.slice(a, b)\<close>: a negative index counts from the end.\<close>

definition js_slice :: "'a list \<Rightarrow> int \<Rightarrow> int \<Rightarrow> 'a list" where
  "js_slice xs a b =
     (let n = int (length xs);
          start = (if a < 0 then max (n + a) 0 else min a n);
          stop = (if b < 0 then max (n + b) 0 else min b n)
      in take (nat (stop - start)) (drop (nat start) xs))"

text \<open>
  \<^verbatim>\<open>GeminiChunker.fallbackChunking\<close>: windows of \<^verbatim>\<open>maxWords\<close> words. The loop
  \<^verbatim>\<open>for (let i = 0; i < words.length; i += maxWords)\<close> does not end when \<^verbatim>\<open>maxWords\<close> is
  not positive; the result is then \<open>None\<close>. (The quotient in \<^verbatim>\<open>Math.ceil\<close> is read as a
  real number; a division by zero happens only in a loop that does not end.)
\<close>

definition word_chunk :: "string list \<Rightarrow> int \<Rightarrow> int \<Rightarrow> nat \<Rightarrow> chunk" where
  "word_chunk words maxWords i n =
     make_chunk (join '' '' (js_slice words i (i + maxWords))) n
       (nat \<lceil>real (length words) / real_of_int maxWords\<rceil>)"

partial_function (option) word_chunks ::
  "string list \<Rightarrow> int \<Rightarrow> int \<Rightarrow> chunk list \<Rightarrow> chunk list option" where
  "word_chunks words maxWords i chunks =
     (if i < int (length words)
      then word_chunks words maxWords (i + maxWords)
             (chunks @ [word_chunk words maxWords i (length chunks)])
      else Some chunks)"

declare word_chunks.simps [code]

definition client_fallbackChunking :: "string \<Rightarrow> int \<Rightarrow> chunk list option" where
  "client_fallbackChunking text maxWords = word_chunks (split_ws text) maxWords 0 []"

text \<open>
  \<^verbatim>\<open>GeminiChunker.chunkContent(content, maxWordsPerChunk = 75)\<close>: the chunks of the
  server's answer when the request succeeds, the client's fallback when the server cannot be
  reached or answers with a failure.
\<close>

definition chunkContent :: "chunk_env \<Rightarrow> string \<Rightarrow> int option \<Rightarrow> chunk list option" where
  "chunkContent env text maxWords_arg =
     (let maxWords = (case maxWords_arg of None \<Rightarrow> 75 | Some n \<Rightarrow> n)
      in if service_reachable env then
           (case chunk_content env False
                   (Inr \<lparr>content_field = Some text, maxWordsPerChunk = Some maxWords\<rparr>) of
              Chunks_ok chunks \<Rightarrow> Some chunks
            | Chunk_failure msg \<Rightarrow> client_fallbackChunking text maxWords
            | Chunk_preflight \<Rightarrow> client_fallbackChunking text maxWords)
         else client_fallbackChunking text maxWords)"

subsection \<open>Notions for the properties of the chunkers\<close>

text \<open>The state of the scan after a text in which no sentence ends, if there is none.\<close>

fun run :: "scan \<Rightarrow> string \<Rightarrow> scan option" where
  "run st [] = Some st"
| "run st (c # cs) =
     (if is_ws c then (case st of After_punct \<Rightarrow> None | _ \<Rightarrow> run st cs)
      else run (scan_of c) cs)"

text \<open>
  A sequence of sentences as the split gives them: every sentence but the last ends with one
  of \<^verbatim>\<open>.\<close>, \<^verbatim>\<open>!\<close> and \<^verbatim>\<open>?\<close>, no sentence is cut by the split, and no sentence after the first
  starts with white space.
\<close>

definition starts_clean :: "string \<Rightarrow> bool" where
  "starts_clean s \<longleftrightarrow> (case s of [] \<Rightarrow> True | c # cs \<Rightarrow> \<not> is_ws c)"

fun sentence_seq :: "string list \<Rightarrow> bool" where
  "sentence_seq [] = True"
| "sentence_seq [s] = (run After_other s \<noteq> None)"
| "sentence_seq (s # t # rest) =
     (run After_other s = Some After_punct \<and> starts_clean t \<and> sentence_seq (t # rest))"

text \<open>The number of words the chunker counts in a group of sentences.\<close>

definition words_of :: "string list \<Rightarrow> nat" where
  "words_of g = sum_list (map (\<lambda>sentence. length (split_ws sentence)) g)"

text \<open>
  Greedy groups: a group of several sentences has at most \<open>maxWords\<close> words, and a group is
  closed only before a sentence that would take it over \<open>maxWords\<close> words.
\<close>

definition fits :: "int \<Rightarrow> string list \<Rightarrow> bool" where
  "fits maxWords g \<longleftrightarrow> length g = 1 \<or> int (words_of g) \<le> maxWords"

fun greedy :: "int \<Rightarrow> string list list \<Rightarrow> bool" where
  "greedy maxWords [] = True"
| "greedy maxWords [g] = fits maxWords g"
| "greedy maxWords (g # h # rest) =
     (fits maxWords g \<and> int (words_of g + words_of (take 1 h)) > maxWords
      \<and> greedy maxWords (h # rest))"

text \<open>The groups of sentences that the loop of \<open>chunk_sentences\<close> forms.\<close>

fun group_sentences :: "int \<Rightarrow> string list \<Rightarrow> string list \<Rightarrow> nat \<Rightarrow> string list list" where
  "group_sentences maxWords [] currentChunk wordCount =
     (if length currentChunk > 0 then [currentChunk] else [])"
| "group_sentences maxWords (sentence # sentences) currentChunk wordCount =
     (let sentenceWords = length (split_ws sentence)
      in if int (wordCount + sentenceWords) > maxWords \<and> length currentChunk > 0
         then currentChunk # group_sentences maxWords sentences [sentence] sentenceWords
         else group_sentences maxWords sentences (currentChunk @ [sentence])
                (wordCount + sentenceWords))"

text \<open>Chunks that are numbered from 1 and all carry their number as \<open>totalChunks\<close>.\<close>

definition numbered :: "chunk list \<Rightarrow> bool" where
  "numbered chunks \<longleftrightarrow>
     map chunkIndex chunks = [1..<Suc (length chunks)]
     \<and> map totalChunks chunks = replicate (length chunks) (length chunks)"

text \<open>The number of rounds of the client's loop from the index \<open>i\<close> on.\<close>

definition rounds :: "nat \<Rightarrow> int \<Rightarrow> int \<Rightarrow> nat" where
  "rounds n i maxWords = nat \<lceil>(real n - real_of_int i) / real_of_int maxWords\<rceil>"

section \<open>The message filter of the database\<close>

text \<open>
  The functions \<^verbatim>\<open>is_response_message\<close> and \<^verbatim>\<open>is_substantial_message\<close> of the migration
  \<^verbatim>\<open>20250630185632_old_cherry.sql\<close>, which state the filter of the chat handler in SQL.
  \<^verbatim>\<open>trim\<close> removes blanks at both ends, \<^verbatim>\<open>position(p in s) > 0\<close> holds when \<open>p\<close> occurs in
  \<open>s\<close>, and the regular expressions are matched against the lower-cased text, where the
  matching of a lower-case pattern does not depend on the case.
\<close>

definition sql_trim :: "string \<Rightarrow> string" where
  "sql_trim s = rev (dropWhile (\<lambda>c. c = CHR '' '') (rev (dropWhile (\<lambda>c. c = CHR '' '') s)))"

definition response_patterns :: "string list" where
  "response_patterns =
     [''none of this'', ''this didn'' @ [apostrophe] @ ''t help'', ''this did not help'',
      ''not helpful'', ''can'' @ [apostrophe] @ ''t help'', ''cannot help'',
      ''forward the issue'', ''contact support'', ''talk to someone'', ''none of these'',
      ''doesn'' @ [apostrophe] @ ''t work'', ''does not work'', ''not working'', ''no help'',
      ''useless'', ''not useful'', ''didn'' @ [apostrophe] @ ''t answer'', ''did not answer'',
      ''wrong answer'', ''incorrect'', ''not right'']"

definition is_response_message :: "string \<Rightarrow> bool" where
  "is_response_message text_content \<longleftrightarrow>
     (let lower_content = toLowerCase (sql_trim text_content)
      in (\<exists>p \<in> set response_patterns. js_includes lower_content p)
         \<or> test_whole i_have_rx lower_content
         \<or> test_whole (seqs [Lit (''i'' @ [apostrophe] @ ''m having ''), issue_tail_rx])
              lower_content)"

definition is_substantial_message :: "string \<Rightarrow> bool" where
  "is_substantial_message text_content \<longleftrightarrow>
     (let lower_content = toLowerCase (sql_trim text_content)
      in \<not> length (sql_trim text_content) < 15
         \<and> \<not> (\<exists>greeting \<in> set commonGreetings. lower_content = greeting)
         \<and> \<not> length (split_ws lower_content) \<le> 3
         \<and> \<not> is_response_message text_content
         \<and> \<not> test_prefix help_request_rx lower_content)"

section \<open>A small deployment for the examples\<close>

text \<open>
  One project with one stored row. The embedding of a text is stood for by the length of
  the text, and the distance between two different embeddings is \<open>0.55\<close>, so that the
  stored row has similarity \<open>0.45\<close> to every query but the 26-character ones.
\<close>

definition demo_project :: project_info where
  "demo_project =
     \<lparr>p_id = ''project-1'', p_name = ''Demo'', p_description = ''A demo project'',
      p_plan = None, p_user_id = ''user-1''\<rparr>"

definition demo_row :: "nat embedding_row" where
  "demo_row =
     \<lparr>e_id = ''row-1'', e_content = ''Passwords are reset from the settings page.'',
      e_embedding = Some 26, e_metadata = JNull, e_source_type = Some ''context'',
      e_source_id = None, e_project_id = Some ''project-1'', e_user_id = Some ''user-1''\<rparr>"

definition demo_distance :: "nat \<Rightarrow> nat \<Rightarrow> real" where
  "demo_distance v q = (if v = q then 0 else 0.55)"

definition demo_env :: "nat chat_env" where
  "demo_env =
     \<lparr>credentials = None,
      getProjectInfo = (\<lambda>slug. Inr demo_project),
      generateEmbedding = (\<lambda>text. Inr (length text)),
      distance = demo_distance,
      embeddings = [demo_row],
      generateResponse = (\<lambda>q c h p. Inr ''I do not know.''),
      classifier = (\<lambda>q. Call_ok (Some ''INQUIRY'')),
      insert_gap = (\<lambda>g. Inserted)\<rparr>"

definition demo_request :: "string \<Rightarrow> real option \<Rightarrow> chat_request" where
  "demo_request q t =
     \<lparr>is_options = False,
      body = Inr \<lparr>req_query = q, req_chatHistory = None, req_projectSlug = ''demo'',
                  req_threshold = t\<rparr>\<rparr>"

definition demo_hit :: similarity_row where
  "demo_hit =
     \<lparr>row_id = ''row-1'', row_content = ''Passwords are reset from the settings page.'',
      similarity = 0.45, row_metadata = JNull, source_type = Some ''context'',
      source_id = None\<rparr>"



definition demo_exact :: similarity_row where
  "demo_exact = demo_hit\<lparr>similarity := 1\<rparr>"

text \<open>A second distance, under which the stored row is orthogonal to every query but the
  26-character ones: its similarity is then 0.\<close>

definition demo_orthogonal :: "nat \<Rightarrow> nat \<Rightarrow> real" where
  "demo_orthogonal v q = (if v = q then 0 else 1)"

definition demo_embed :: "string \<Rightarrow> string + nat" where
  "demo_embed text = Inr (length text)"

text \<open>A table with four rows: the stored row, an issue of the same project, a row of
  another project and a row without embedding.\<close>

definition demo_issue_row :: "nat embedding_row" where
  "demo_issue_row =
     demo_row\<lparr>e_id := ''row-2'', e_content := ''Login fails.'', e_embedding := Some 10,
              e_source_type := Some ''issue''\<rparr>"

definition demo_table :: "nat embedding_row list" where
  "demo_table =
     [demo_issue_row, demo_row,
      demo_row\<lparr>e_id := ''row-3'', e_project_id := Some ''project-2''\<rparr>,
      demo_row\<lparr>e_id := ''row-4'', e_embedding := None\<rparr>]"

definition demo_issue_hit :: similarity_row where
  "demo_issue_hit =
     \<lparr>row_id = ''row-2'', row_content = ''Login fails.'', similarity = 0.45,
      row_metadata = JNull, source_type = Some ''issue'', source_id = None\<rparr>"



text \<open>A chunking service whose model answers with the empty array, and one that cannot be
  reached.\<close>

definition silent_env :: chunk_env where
  "silent_env = \<lparr>key_error = None, segmentation = (\<lambda>text n. Oracle_chunks []),
                  service_reachable = True\<rparr>"

definition down_env :: chunk_env where
  "down_env = silent_env\<lparr>service_reachable := False\<rparr>"

definition cats_and_dogs :: string where
  "cats_and_dogs = ''Cats are mammals. Dogs are mammals too.''"

text \<open>A chunking service whose model gives no text, and one whose service account key is
  missing.\<close>

definition failing_env :: chunk_env where
  "failing_env = \<lparr>key_error = None,
                   segmentation = (\<lambda>text n. Oracle_throws ''No response text from Vertex AI''),
                   service_reachable = True\<rparr>"

definition keyless_env :: chunk_env where
  "keyless_env =
     silent_env\<lparr>key_error := Some ''GOOGLE_CLOUD_SERVICE_ACCOUNT_KEY not found in environment''\<rparr>"

section \<open>Properties of the chat handler\<close>

subsection \<open>Evaluation lemmas\<close>

lemmas string_defs = trim_def is_ws_def split_ws_def toLowerCase_def toUpperCase_def
  lower_char_def upper_char_def lower_letters_def upper_letters_def substring0_def

lemmas filter_defs = isSubstantialQuery_def looksLikeResponse_def isJustIssueStatement_def
  commonGreetings_def help_request_rx_def response_rx_def issue_tail_rx_def i_have_rx_def
  i_am_having_rx_def apostrophe_def test_prefix_def test_whole_def

lemma demo_env_sel:
  "credentials demo_env = None"
  "getProjectInfo demo_env slug = Inr demo_project"
  "generateEmbedding demo_env q = Inr (length q)"
  "distance demo_env = demo_distance"
  "embeddings demo_env = [demo_row]"
  "generateResponse demo_env q c h p = Inr ''I do not know.''"
  "classifier demo_env q = Call_ok (Some ''INQUIRY'')"
  "insert_gap demo_env g = Inserted"
  by (simp_all add: demo_env_def)

lemma demo_candidate_far:
  "th = 0.4 \<Longrightarrow> n \<noteq> 26 \<Longrightarrow>
   candidate demo_distance n th (Some ''project-1'') None demo_row = Some (0.55, demo_row)"
  by (simp add: candidate_def matches_filter_def demo_row_def demo_distance_def)

lemma demo_candidate_exact:
  "th = 0.4 \<Longrightarrow>
   candidate demo_distance 26 th (Some ''project-1'') None demo_row = Some (0, demo_row)"
  by (simp add: candidate_def matches_filter_def demo_row_def demo_distance_def)

lemma demo_select_far: "d = 0.55 \<Longrightarrow> select_row (d, demo_row) = demo_hit"
  by (simp add: select_row_def demo_row_def demo_hit_def)

lemma demo_select_exact: "select_row (0, demo_row) = demo_exact"
  by (simp add: select_row_def demo_row_def demo_hit_def demo_exact_def)

lemma demo_search_far:
  "th = 0.4 \<Longrightarrow> n \<noteq> 26 \<Longrightarrow>
   searchSimilarContent demo_env n ''project-1'' (Some th) None =
     (\<lparr>query_embedding = n, match_threshold = Some 0.4, match_count = Some 5,
       filter_project_id = Some ''project-1'', filter_user_id = None\<rparr>, Inr [demo_hit])"
  by (simp add: searchSimilarContent_def similarity_search_def demo_env_sel demo_candidate_far
      demo_select_far Let_def)

lemma demo_search_exact:
  "th = 0.4 \<Longrightarrow>
   searchSimilarContent demo_env 26 ''project-1'' (Some th) None =
     (\<lparr>query_embedding = 26, match_threshold = Some 0.4, match_count = Some 5,
       filter_project_id = Some ''project-1'', filter_user_id = None\<rparr>, Inr [demo_exact])"
  by (simp add: searchSimilarContent_def similarity_search_def demo_env_sel
      demo_candidate_exact demo_select_exact Let_def)

lemma demo_hit_not_relevant: "\<not> hasRelevantContent [demo_hit]"
  by (simp add: hasRelevantContent_def demo_hit_def)

lemma demo_exact_relevant: "hasRelevantContent [demo_exact]"
  by (simp add: hasRelevantContent_def demo_hit_def demo_exact_def)

lemma demo_classify: "classify (Call_ok (Some ''INQUIRY'')) = INQUIRY"
  by (simp add: classify_def isQuestionAnIssue_def string_defs)

lemma demo_insert_log_far:
  "q \<noteq> [] \<Longrightarrow> length q \<noteq> 26 \<Longrightarrow>
   insert_log (chat_query demo_env (demo_request q t)) =
     (if qualifies q [demo_hit] then [new_gap_record INQUIRY q demo_project] else [])"
  by (simp add: chat_query_def demo_request_def demo_env_sel demo_project_def
      demo_search_far answer_def Let_def demo_classify)

lemma demo_insert_log_exact:
  "length q = 26 \<Longrightarrow> insert_log (chat_query demo_env (demo_request q t)) = []"
  by (auto simp: chat_query_def demo_request_def demo_env_sel demo_project_def
      demo_search_exact answer_def Let_def qualifies_def demo_exact_relevant failed_def)

subsection \<open>What the handler logs\<close>

lemma answer_insert_log:
  "insert_log (answer env b info args rows) =
     (case generateResponse env (req_query b) (context_text rows)
             (case req_chatHistory b of None \<Rightarrow> [] | Some h \<Rightarrow> h) info of
        Inl msg \<Rightarrow> []
      | Inr text \<Rightarrow>
          if qualifies (req_query b) rows
          then [new_gap_record (classify (classifier env (req_query b))) (req_query b) info]
          else [])"
  by (simp add: answer_def Let_def split: sum.split)

lemma chat_query_gap:
  assumes "g \<in> set (insert_log (chat_query env req))"
  shows "\<exists>b info emb rows.
           body req = Inr b
         \<and> getProjectInfo env (req_projectSlug b) = Inr info
         \<and> generateEmbedding env (req_query b) = Inr emb
         \<and> snd (searchSimilarContent env emb (p_id info) (Some 0.4) None) = Inr rows
         \<and> qualifies (req_query b) rows
         \<and> g = new_gap_record (classify (classifier env (req_query b))) (req_query b) info"
  using assms
  by (auto simp: chat_query_def failed_def answer_insert_log
           split: if_splits sum.splits option.splits prod.splits)

lemma gap_record_fields:
  "title (new_gap_record t q info) = gap_title q"
  "description (new_gap_record t q info) = q"
  "into (new_gap_record t q info) = (case t of ISSUE \<Rightarrow> Issues | INQUIRY \<Rightarrow> Inquiries)"
  by (simp_all add: new_gap_record_def split: gap_type.split)

lemma gap_title_length: "length (gap_title q) \<le> 42"
  by (simp add: gap_title_def substring0_def)


subsection \<open>Retrieval sufficiency\<close>

text \<open>
  Claim C1. Retrieval is judged sufficient exactly when the search result is not empty and
  some returned row has a similarity strictly above 0.5. When the rows found for a request
  are sufficient, the handler logs no knowledge-gap record. A result whose best match has
  similarity 0.45 is not sufficient, although a row of similarity 0.45 passes the search
  threshold 0.4 and is returned.
\<close>

theorem C1_retrieval_sufficiency:
  "(hasRelevantContent rows \<longleftrightarrow> rows \<noteq> [] \<and> (\<exists>item \<in> set rows. similarity item > 0.5))
   \<and> (body req = Inr b \<and> getProjectInfo env (req_projectSlug b) = Inr info
        \<and> generateEmbedding env (req_query b) = Inr emb
        \<and> snd (searchSimilarContent env emb (p_id info) (Some 0.4) None) = Inr found
        \<and> hasRelevantContent found
      \<longrightarrow> insert_log (chat_query env req) = [])
   \<and> (weak \<noteq> [] \<and> Max (similarity ` set weak) = 0.45 \<longrightarrow> \<not> hasRelevantContent weak)
   \<and> (e_embedding e = Some v \<and> 1 - cosine_distance v q = 0.45
        \<and> matches_filter pid (e_project_id e) \<and> matches_filter uid (e_user_id e)
      \<longrightarrow> candidate cosine_distance q 0.4 pid uid e = Some (cosine_distance v q, e)
          \<and> similarity (select_row (cosine_distance v q, e)) = 0.45)"
proof (intro conjI impI)
  show "hasRelevantContent rows \<longleftrightarrow> rows \<noteq> [] \<and> (\<exists>item \<in> set rows. similarity item > 0.5)"
    by (simp add: hasRelevantContent_def)
next
  assume a: "body req = Inr b \<and> getProjectInfo env (req_projectSlug b) = Inr info
        \<and> generateEmbedding env (req_query b) = Inr emb
        \<and> snd (searchSimilarContent env emb (p_id info) (Some 0.4) None) = Inr found
        \<and> hasRelevantContent found"
  show "insert_log (chat_query env req) = []"
  proof (rule ccontr)
    assume "insert_log (chat_query env req) \<noteq> []"
    then obtain g where "g \<in> set (insert_log (chat_query env req))"
      by (cases "insert_log (chat_query env req)") auto
    from chat_query_gap [OF this] a have "qualifies (req_query b) found"
      by auto
    with a show False
      by (simp add: qualifies_def)
  qed
next
  assume w: "weak \<noteq> [] \<and> Max (similarity ` set weak) = 0.45"
  show "\<not> hasRelevantContent weak"
  proof
    assume "hasRelevantContent weak"
    then obtain item where i: "item \<in> set weak" "similarity item > 0.5"
      by (auto simp: hasRelevantContent_def)
    then have "similarity item \<le> Max (similarity ` set weak)"
      by simp
    with w i show False
      by simp
  qed
next
  assume c: "e_embedding e = Some v \<and> 1 - cosine_distance v q = 0.45
        \<and> matches_filter pid (e_project_id e) \<and> matches_filter uid (e_user_id e)"
  then show "candidate cosine_distance q 0.4 pid uid e = Some (cosine_distance v q, e)"
    by (simp add: candidate_def)
  from c show "similarity (select_row (cosine_distance v q, e)) = 0.45"
    by (simp add: select_row_def)
qed

theorem C1_retrieval_sufficiency_witness:
  "hasRelevantContent [demo_exact]
   \<and> insert_log (chat_query demo_env (demo_request ''how do I reset my password'' None)) = []
   \<and> \<not> hasRelevantContent [demo_hit]
   \<and> candidate demo_distance 25 0.4 (Some ''project-1'') None demo_row = Some (0.55, demo_row)
   \<and> similarity (select_row (0.55, demo_row)) = 0.45"
proof -
  let ?q = "''how do I reset my password''"
  have s: "snd (searchSimilarContent demo_env 26 (p_id demo_project) (Some 0.4) None)
             = Inr [demo_exact]"
    by (simp add: demo_search_exact demo_project_def)
  have g: "generateEmbedding demo_env ?q = Inr 26"
    by (simp add: demo_env_sel)
  have m: "Max (similarity ` set [demo_hit]) = 0.45"
    by (simp add: demo_hit_def)
  have d: "1 - demo_distance 26 25 = 0.45"
    by (simp add: demo_distance_def)
  have r: "e_embedding demo_row = Some 26" "e_project_id demo_row = Some ''project-1''"
    by (simp_all add: demo_row_def)
  show ?thesis
    using C1_retrieval_sufficiency [of "[demo_exact]" "demo_request ?q None"
        "\<lparr>req_query = ?q, req_chatHistory = None, req_projectSlug = ''demo'',
          req_threshold = None\<rparr>"
        demo_env demo_project 26 "[demo_exact]" "[demo_hit]" demo_row 26
        demo_distance 25 "Some ''project-1''" None] s g m d r
    by (simp add: demo_request_def demo_env_sel(1,2,4-8) demo_exact_relevant
        matches_filter_def demo_distance_def)
qed

subsection \<open>The title of a gap record\<close>

text \<open>
  Claim C3, as the handler builds the record. Every record the handler logs has the title
  "Knowledge Gap: " followed by the query, where a query longer than 27 characters is cut to
  its first 24 characters plus "..." and any other query is kept whole; the title has at most
  42 characters, and the description is the whole query.
\<close>

theorem C3_gap_record_title:
  "g \<in> set (insert_log (chat_query env req)) \<Longrightarrow> body req = Inr b \<Longrightarrow>
   title g = ''Knowledge Gap: '' @
       (if length (req_query b) > 27 then take 24 (req_query b) @ ''...'' else req_query b)
   \<and> length (title g) \<le> 42
   \<and> description g = req_query b"
  using chat_query_gap [of g env req]
  by (auto simp: gap_record_fields gap_title_length) (simp_all add: gap_title_def substring0_def)

theorem C3_gap_record_title_witness:
  "title (new_gap_record INQUIRY ''where can I find the export button'' demo_project)
     = ''Knowledge Gap: where can I find the exp...''
   \<and> description (new_gap_record INQUIRY ''where can I find the export button'' demo_project)
     = ''where can I find the export button''"
proof -
  let ?q = "''where can I find the export button''"
  have q: "qualifies ?q [demo_hit]"
    by (simp add: qualifies_def demo_hit_not_relevant string_defs filter_defs)
  have l: "insert_log (chat_query demo_env (demo_request ?q None))
             = [new_gap_record INQUIRY ?q demo_project]"
    using q by (simp add: demo_insert_log_far)
  show ?thesis
    using C3_gap_record_title [of "new_gap_record INQUIRY ?q demo_project" demo_env
        "demo_request ?q None"
        "\<lparr>req_query = ?q, req_chatHistory = None, req_projectSlug = ''demo'',
          req_threshold = None\<rparr>"] l
    by (simp add: demo_request_def)
qed

text \<open>
  A qualifying query of 25 characters is longer than 24 characters, yet its title holds the
  whole query and has 40 characters.
\<close>

theorem C3_gap_record_title_counterexample:
  "map title (insert_log (chat_query demo_env (demo_request ''how do I reset a password'' None)))
     = [''Knowledge Gap: how do I reset a password'']
   \<and> length ''how do I reset a password'' = 25
   \<and> length ''Knowledge Gap: how do I reset a password'' = 40"
proof -
  let ?q = "''how do I reset a password''"
  have q: "qualifies ?q [demo_hit]"
    by (simp add: qualifies_def demo_hit_not_relevant string_defs filter_defs)
  then show ?thesis
    by (simp add: demo_insert_log_far gap_record_fields gap_title_def)
qed

subsection \<open>The length gate\<close>

text \<open>
  Claim C4 at a query whose trimmed length is exactly 15. The query has four words, is no
  greeting, no generic request for help and no reply to the assistant, and retrieval is
  insufficient for it; the filter of the database accepts it. The handler's test
  \<^verbatim>\<open>query.trim().length > 15\<close> rejects it, and no gap record is logged. With one more
  character the same query is logged.
\<close>

theorem C4_length_gate_at_15:
  "length (trim ''why did it fail'') = 15
   \<and> length (split_ws (trim ''why did it fail'')) = 4
   \<and> toLowerCase (trim ''why did it fail'') \<notin> set commonGreetings
   \<and> \<not> test_prefix help_request_rx (trim ''why did it fail'')
   \<and> \<not> looksLikeResponse ''why did it fail''
   \<and> \<not> isJustIssueStatement ''why did it fail''
   \<and> is_substantial_message ''why did it fail''
   \<and> \<not> isSubstantialQuery ''why did it fail''
   \<and> insert_log (chat_query demo_env (demo_request ''why did it fail'' None)) = []
   \<and> insert_log (chat_query demo_env (demo_request ''why did it fail?'' None))
       = [new_gap_record INQUIRY ''why did it fail?'' demo_project]"
proof -
  have a: "\<not> isSubstantialQuery ''why did it fail''"
    by (simp add: string_defs filter_defs)
  have b: "qualifies ''why did it fail?'' [demo_hit]"
    by (simp add: qualifies_def demo_hit_not_relevant string_defs filter_defs)
  have c: "insert_log (chat_query demo_env (demo_request ''why did it fail'' None)) = []"
    using a by (simp add: demo_insert_log_far qualifies_def)
  have d: "insert_log (chat_query demo_env (demo_request ''why did it fail?'' None))
       = [new_gap_record INQUIRY ''why did it fail?'' demo_project]"
    using b by (simp add: demo_insert_log_far)
  have e: "length (trim ''why did it fail'') = 15
   \<and> length (split_ws (trim ''why did it fail'')) = 4
   \<and> toLowerCase (trim ''why did it fail'') \<notin> set commonGreetings
   \<and> \<not> test_prefix help_request_rx (trim ''why did it fail'')
   \<and> \<not> looksLikeResponse ''why did it fail''
   \<and> \<not> isJustIssueStatement ''why did it fail''"
    by (simp add: string_defs filter_defs)
  have f: "sql_trim ''why did it fail'' = ''why did it fail''"
    by (simp add: sql_trim_def)
  have g: "\<not> is_response_message ''why did it fail''"
    unfolding is_response_message_def f
    by (simp add: string_defs filter_defs response_patterns_def)
  have h: "is_substantial_message ''why did it fail''"
    unfolding is_substantial_message_def f using g
    by (simp add: string_defs filter_defs)
  from a c d e h show ?thesis
    by blast
qed

subsection \<open>The classifier\<close>

text \<open>
  Claim C9. The classification is ISSUE or INQUIRY. When the call to the model throws,
  answers without success or answers without text, the classification is INQUIRY, and a
  record the handler logs for such a query goes to the inquiries.
\<close>

theorem C9_classifier_fails_safe:
  "(classify reply = ISSUE \<or> classify reply = INQUIRY)
   \<and> (reply \<in> {Call_throws, Call_not_ok, Call_ok None} \<longrightarrow> classify reply = INQUIRY)
   \<and> (g \<in> set (insert_log (chat_query env req)) \<and> body req = Inr b
        \<and> classifier env (req_query b) \<in> {Call_throws, Call_not_ok, Call_ok None}
      \<longrightarrow> into g = Inquiries)"
proof -
  have f: "classify r = INQUIRY" if "r \<in> {Call_throws, Call_not_ok, Call_ok None}" for r
    using that by (auto simp: classify_def isQuestionAnIssue_def trim_def toUpperCase_def)
  have "into g = Inquiries"
    if "g \<in> set (insert_log (chat_query env req))" "body req = Inr b"
       "classifier env (req_query b) \<in> {Call_throws, Call_not_ok, Call_ok None}"
    using chat_query_gap [OF that(1)] that(2) f [OF that(3)]
    by (auto simp: gap_record_fields)
  with f show ?thesis
    by (cases "classify reply") auto
qed

theorem C9_classifier_fails_safe_witness:
  "classify Call_not_ok = INQUIRY
   \<and> into (new_gap_record INQUIRY ''why did it fail?'' demo_project) = Inquiries"
proof -
  let ?q = "''why did it fail?''"
  let ?env = "demo_env\<lparr>classifier := (\<lambda>q. Call_not_ok)\<rparr>"
  have q: "qualifies ?q [demo_hit]"
    by (simp add: qualifies_def demo_hit_not_relevant string_defs filter_defs)
  have s: "searchSimilarContent ?env n p t l = searchSimilarContent demo_env n p t l"
    for n p t l
    by (simp add: searchSimilarContent_def)
  have c: "classify Call_not_ok = INQUIRY"
    by (simp add: classify_def isQuestionAnIssue_def)
  have l: "insert_log (chat_query ?env (demo_request ?q None))
             = [new_gap_record INQUIRY ?q demo_project]"
    using q
    by (simp add: chat_query_def demo_request_def demo_env_sel demo_project_def s
        demo_search_far answer_def Let_def c)
  show ?thesis
    using C9_classifier_fails_safe [of Call_not_ok "new_gap_record INQUIRY ?q demo_project"
        ?env "demo_request ?q None"
        "\<lparr>req_query = ?q, req_chatHistory = None, req_projectSlug = ''demo'',
          req_threshold = None\<rparr>"] l
    by (simp add: demo_request_def)
qed

subsection \<open>The threshold of a request\<close>

text \<open>
  Claim C10. Two requests that differ only in the \<^verbatim>\<open>threshold\<close> field of the body get the
  same response and cause the same calls on the database, and every similarity search of the
  handler is called with the threshold 0.4 and the limit 5.
\<close>

theorem C10_request_threshold_ignored:
  "chat_query env (req\<lparr>body := Inr (b\<lparr>req_threshold := t1\<rparr>)\<rparr>)
     = chat_query env (req\<lparr>body := Inr (b\<lparr>req_threshold := t2\<rparr>)\<rparr>)
   \<and> (\<forall>a \<in> set (rpc_log (chat_query env req)).
         match_threshold a = Some 0.4 \<and> match_count a = Some 5)"
proof
  show "chat_query env (req\<lparr>body := Inr (b\<lparr>req_threshold := t1\<rparr>)\<rparr>)
     = chat_query env (req\<lparr>body := Inr (b\<lparr>req_threshold := t2\<rparr>)\<rparr>)"
    by (simp add: chat_query_def answer_def split: option.split sum.split prod.split)
  show "\<forall>a \<in> set (rpc_log (chat_query env req)).
         match_threshold a = Some 0.4 \<and> match_count a = Some 5"
    by (auto simp: chat_query_def failed_def answer_def searchSimilarContent_def Let_def
           split: if_splits sum.splits option.splits prod.splits)
qed

theorem C10_request_threshold_ignored_witness:
  "chat_query demo_env (demo_request ''why did it fail?'' (Some 0.9))
     = chat_query demo_env (demo_request ''why did it fail?'' None)
   \<and> map match_threshold (rpc_log (chat_query demo_env (demo_request ''why did it fail?'' None)))
       = [Some 0.4]
   \<and> map match_count (rpc_log (chat_query demo_env (demo_request ''why did it fail?'' None)))
       = [Some 5]"
proof -
  let ?q = "''why did it fail?''"
  let ?b = "\<lparr>req_query = ?q, req_chatHistory = None, req_projectSlug = ''demo'',
          req_threshold = None\<rparr>"
  have l: "rpc_log (chat_query demo_env (demo_request ?q None))
     = [\<lparr>query_embedding = 16, match_threshold = Some 0.4, match_count = Some 5,
       filter_project_id = Some ''project-1'', filter_user_id = None\<rparr>]"
    by (simp add: chat_query_def demo_request_def demo_env_sel demo_project_def
        demo_search_far answer_def Let_def)
  show ?thesis
    using C10_request_threshold_ignored [where env = demo_env and req = "demo_request ?q None"
        and b = ?b and ?t1.0 = "Some 0.9" and ?t2.0 = None] l
    by (simp add: demo_request_def)
qed

section \<open>Properties of the similarity search\<close>

lemma candidate_Some:
  "candidate cd q t pid uid e = Some de \<longleftrightarrow>
     eligible cd q t pid uid e \<and> de = (1 - similarity (result_of cd q e), e)"
  by (auto simp: candidate_def eligible_def result_of_def select_row_def split: option.splits)

lemma candidate_None:
  "candidate cd q t pid uid e = None \<longleftrightarrow> \<not> eligible cd q t pid uid e"
  by (auto simp: candidate_def eligible_def split: option.splits)

lemma select_candidate:
  "candidate cd q t pid uid e = Some de \<Longrightarrow> select_row de = result_of cd q e"
  by (auto simp: candidate_def result_of_def select_row_def split: option.splits if_splits)

lemma map_filter_candidate:
  "map select_row (List.map_filter (candidate cd q t pid uid) rows)
     = map (result_of cd q) (filter (eligible cd q t pid uid) rows)"
  by (induction rows)
     (auto simp: candidate_Some candidate_None select_candidate split: option.splits)

lemma similarity_select: "similarity (select_row de) = 1 - fst de"
  by (simp add: select_row_def)

lemma sorted_desc_select:
  "sorted (map fst xs) \<Longrightarrow> sorted_wrt (\<lambda>a b. similarity a \<ge> similarity b) (map select_row xs)"
  by (induction xs) (auto simp: similarity_select)

lemma sorted_wrt_take: "sorted_wrt P xs \<Longrightarrow> sorted_wrt P (take n xs)"
  by (metis append_take_drop_id sorted_wrt_append)

lemma eligible_similarity:
  "eligible cd q t pid uid e \<Longrightarrow> similarity (result_of cd q e) > t"
  by (auto simp: eligible_def result_of_def select_row_def split: option.splits)

lemma eligible_scoped:
  "eligible cd q t (Some pid) (Some uid) e \<longleftrightarrow>
     e_project_id e = Some pid \<and> e_user_id e = Some uid
     \<and> (\<exists>v. e_embedding e = Some v \<and> 1 - cd v q > t)"
  by (auto simp: eligible_def matches_filter_def split: option.splits)

text \<open>A search that returns rows returns the first \<open>n\<close> of the eligible rows in descending
  order of similarity.\<close>

lemma search_returns:
  assumes "similarity_search cd rows q (Some t) (Some n) pid uid = Inr res"
  shows "0 \<le> n \<and> (\<exists>found. res = take (nat n) found
          \<and> sorted_wrt (\<lambda>a b. similarity a \<ge> similarity b) found
          \<and> mset found = mset (map (result_of cd q) (filter (eligible cd q t pid uid) rows)))"
proof -
  let ?sel = "List.map_filter (candidate cd q t pid uid) rows"
  from assms have n: "0 \<le> n"
    by (simp add: similarity_search_def Let_def split: if_splits)
  let ?found = "map select_row (sort_key fst ?sel)"
  have "res = take (nat n) ?found"
    using assms n by (simp add: similarity_search_def Let_def take_map)
  moreover have "sorted_wrt (\<lambda>a b. similarity a \<ge> similarity b) ?found"
    by (rule sorted_desc_select) simp
  moreover have "mset ?found
      = mset (map (result_of cd q) (filter (eligible cd q t pid uid) rows))"
    by (simp flip: map_filter_candidate)
  ultimately show ?thesis
    using n by blast
qed

lemma search_total:
  "0 \<le> n \<Longrightarrow> \<exists>res. similarity_search cd rows q t (Some n) pid uid = Inr res"
  by (simp add: similarity_search_def Let_def)

lemma found_above:
  assumes "mset found = mset (map (result_of cd q) (filter (eligible cd q t pid uid) rows))"
      and "r \<in> set found"
  shows "similarity r > t"
proof -
  from assms have "r \<in> set (map (result_of cd q) (filter (eligible cd q t pid uid) rows))"
    by (metis set_mset_mset)
  then show ?thesis
    by (auto simp: eligible_similarity)
qed

lemma demo_rows_sel:
  "e_embedding demo_row = Some 26" "e_project_id demo_row = Some ''project-1''"
  "e_user_id demo_row = Some ''user-1''"
  by (simp_all add: demo_row_def)


subsection \<open>The thresholds 1.0 and 0.0\<close>

lemma demo_search_zero_orthogonal:
  "similarity_search demo_orthogonal [demo_row] 25 (Some 0) (Some 10)
       (Some ''project-1'') (Some ''user-1'') = Inr []"
  by (simp add: similarity_search_def candidate_def demo_rows_sel demo_orthogonal_def
      matches_filter_def)

lemma demo_search_one:
  "similarity_search demo_distance [demo_row] 26 (Some 1) (Some 10)
       (Some ''project-1'') (Some ''user-1'') = Inr []"
  by (simp add: similarity_search_def candidate_def demo_rows_sel demo_distance_def
      matches_filter_def)

lemma demo_search_zero:
  "similarity_search demo_distance [demo_row] 25 (Some 0) (Some 10)
       (Some ''project-1'') (Some ''user-1'') = Inr [demo_hit]"
  by (simp add: similarity_search_def candidate_def demo_rows_sel demo_distance_def
      matches_filter_def demo_select_far)

text \<open>
  Claim C5, as the database function computes it. With the threshold 1.0 every returned row
  has a similarity strictly above 1.0, so that nothing is returned when no cosine distance is
  negative. With the threshold 0.0 the result has at most \<open>n\<close> rows: it is the first \<open>n\<close> rows
  of \<open>found\<close>, where \<open>found\<close> holds exactly the rows in scope whose similarity is strictly
  above 0, in descending order of similarity.
\<close>

theorem C5_threshold_extremes:
  "(similarity_search cd rows q (Some 1) (Some n) pid uid = Inr exact \<longrightarrow>
       (\<forall>r \<in> set exact. similarity r > 1) \<and> ((\<forall>v. 0 \<le> cd v q) \<longrightarrow> exact = []))
   \<and> (similarity_search cd rows q (Some 0) (Some n) pid uid = Inr res \<longrightarrow>
         int (length res) \<le> n
       \<and> sorted_wrt (\<lambda>a b. similarity a \<ge> similarity b) res
       \<and> (\<forall>r \<in> set res. similarity r > 0)
       \<and> (\<exists>found. res = take (nat n) found
            \<and> sorted_wrt (\<lambda>a b. similarity a \<ge> similarity b) found
            \<and> mset found = mset (map (result_of cd q) (filter (eligible cd q 0 pid uid) rows))))"
proof (intro conjI impI)
  assume a: "similarity_search cd rows q (Some 1) (Some n) pid uid = Inr exact"
  from search_returns [OF a] obtain found where f: "exact = take (nat n) found"
    "mset found = mset (map (result_of cd q) (filter (eligible cd q 1 pid uid) rows))"
    by blast
  show above: "\<forall>r \<in> set exact. similarity r > 1"
    using f found_above [OF f(2)] by (auto dest: in_set_takeD)
  assume nonneg: "\<forall>v. 0 \<le> cd v q"
  have "\<not> eligible cd q 1 pid uid e" for e
    using nonneg by (fastforce simp: eligible_def not_less [symmetric] split: option.splits)
  with f show "exact = []"
    by simp
next
  assume a: "similarity_search cd rows q (Some 0) (Some n) pid uid = Inr res"
  from search_returns [OF a] obtain found where f: "0 \<le> n" "res = take (nat n) found"
    "sorted_wrt (\<lambda>a b. similarity a \<ge> similarity b) found"
    "mset found = mset (map (result_of cd q) (filter (eligible cd q 0 pid uid) rows))"
    by blast
  from f show "int (length res) \<le> n"
    by simp
  from f show "sorted_wrt (\<lambda>a b. similarity a \<ge> similarity b) res"
    by (simp add: sorted_wrt_take)
  show "\<forall>r \<in> set res. similarity r > 0"
    using f found_above [OF f(4)] by (auto dest: in_set_takeD)
  show "\<exists>found. res = take (nat n) found
            \<and> sorted_wrt (\<lambda>a b. similarity a \<ge> similarity b) found
            \<and> mset found = mset (map (result_of cd q) (filter (eligible cd q 0 pid uid) rows))"
    by (rule exI [of _ found]) (intro conjI f(2) f(3) f(4))
qed


theorem C5_threshold_extremes_witness:
  "similarity_search demo_distance [demo_row] 26 (Some 1) (Some 10)
       (Some ''project-1'') (Some ''user-1'') = Inr []
   \<and> similarity_search demo_distance [demo_row] 25 (Some 0) (Some 10)
       (Some ''project-1'') (Some ''user-1'') = Inr [demo_hit]
   \<and> similarity demo_hit > 0
   \<and> int (length [demo_hit]) \<le> 10"
  using C5_threshold_extremes [of demo_distance "[demo_row]" 26 10 "Some ''project-1''"
      "Some ''user-1''" "[]" "[demo_hit]"]
    C5_threshold_extremes [of demo_distance "[demo_row]" 25 10 "Some ''project-1''"
      "Some ''user-1''" "[]" "[demo_hit]"]
    demo_search_one demo_search_zero
  by simp

text \<open>
  A stored row of the searched project and user whose similarity to the query is 0 is not
  returned by a search with the threshold 0.0, although the limit 10 is not reached.
\<close>

theorem C5_threshold_zero_counterexample:
  "similarity_search demo_orthogonal [demo_row] 25 (Some 0) (Some 10)
       (Some ''project-1'') (Some ''user-1'') = Inr []
   \<and> e_project_id demo_row = Some ''project-1''
   \<and> e_user_id demo_row = Some ''user-1''
   \<and> e_embedding demo_row = Some 26
   \<and> 1 - demo_orthogonal 26 25 = 0"
  by (simp add: demo_search_zero_orthogonal demo_rows_sel demo_orthogonal_def)

subsection \<open>The result of a search\<close>

lemma demo_search_table:
  "searchSimilar demo_embed demo_distance demo_table ''how do I reset my password''
      ''project-1'' ''user-1'' \<lparr>opt_threshold = None, opt_limit = None, opt_sourceType = t\<rparr>
     = Inr (filter (of_source_type t) [demo_exact, demo_issue_hit])"
  by (simp add: searchSimilar_def demo_embed_def threshold_of_def limit_of_def
      similarity_search_def candidate_def demo_table_def demo_issue_row_def demo_rows_sel
      demo_distance_def matches_filter_def select_row_def demo_row_def demo_exact_def
      demo_hit_def demo_issue_hit_def)

lemma demo_search_table_first:
  "searchSimilar demo_embed demo_distance demo_table ''how do I reset my password''
      ''project-1'' ''user-1'' \<lparr>opt_threshold = None, opt_limit = Some 1, opt_sourceType = t\<rparr>
     = Inr (filter (of_source_type t) [demo_exact])"
  by (simp add: searchSimilar_def demo_embed_def threshold_of_def limit_of_def
      similarity_search_def candidate_def demo_table_def demo_issue_row_def demo_rows_sel
      demo_distance_def matches_filter_def select_row_def demo_row_def demo_exact_def
      demo_hit_def demo_issue_hit_def)

lemma result_of_row:
  "e_embedding e = Some v \<Longrightarrow>
   result_of cd q e
     = \<lparr>row_id = e_id e, row_content = e_content e, similarity = 1 - cd (the (e_embedding e)) q,
        row_metadata = e_metadata e, source_type = e_source_type e, source_id = e_source_id e\<rparr>"
  by (simp add: result_of_def select_row_def)

text \<open>
  Claim C8, as the service computes it over the database function. A search that returns
  rows has embedded the query. Let \<open>found\<close> hold exactly the result rows of the stored rows of
  the given project and user whose similarity is above the threshold that was supplied, 0.4
  when none was, in descending order of similarity. The search returns, of the first \<open>limit\<close>
  rows of \<open>found\<close> (10 when no limit was supplied), those of the given source type, all of
  them when no source type is given: the source type is tested after the truncation. The
  returned rows are in descending order of similarity, at most \<open>limit\<close> many, above the
  threshold and of the given source type. The search returns rows whenever the query can be
  embedded and the limit is not negative, and a search without threshold is the search with
  the threshold 0.4.
\<close>

theorem C8_search_result:
  "(searchSimilar embedder cd stored query pid uid
        \<lparr>opt_threshold = th, opt_limit = lm, opt_sourceType = st\<rparr> = Inr res \<longrightarrow>
      (\<exists>emb found.
          embedder query = Inr emb
        \<and> res = filter (\<lambda>r. case st of None \<Rightarrow> True
                              | Some t \<Rightarrow> t = [] \<or> source_type r = Some t)
                  (take (nat (case lm of None \<Rightarrow> 10 | Some n \<Rightarrow> n)) found)
        \<and> sorted_wrt (\<lambda>a b. similarity a \<ge> similarity b) found
        \<and> mset found = mset (map
            (\<lambda>e. \<lparr>row_id = e_id e, row_content = e_content e,
                   similarity = 1 - cd (the (e_embedding e)) emb,
                   row_metadata = e_metadata e, source_type = e_source_type e,
                   source_id = e_source_id e\<rparr>)
            (filter (\<lambda>e. e_project_id e = Some pid \<and> e_user_id e = Some uid
                        \<and> (\<exists>v. e_embedding e = Some v
                              \<and> 1 - cd v emb > (case th of None \<Rightarrow> 0.4 | Some t \<Rightarrow> t)))
               stored)))
      \<and> sorted_wrt (\<lambda>a b. similarity a \<ge> similarity b) res
      \<and> int (length res) \<le> (case lm of None \<Rightarrow> 10 | Some n \<Rightarrow> n)
      \<and> (\<forall>r \<in> set res. similarity r > (case th of None \<Rightarrow> 0.4 | Some t \<Rightarrow> t)
            \<and> (case st of None \<Rightarrow> True | Some t \<Rightarrow> t = [] \<or> source_type r = Some t)))
   \<and> (embedder query = Inr emb' \<and> 0 \<le> (case lm of None \<Rightarrow> 10 | Some n \<Rightarrow> n) \<longrightarrow>
        (\<exists>rows. searchSimilar embedder cd stored query pid uid
                  \<lparr>opt_threshold = th, opt_limit = lm, opt_sourceType = st\<rparr> = Inr rows))
   \<and> searchSimilar embedder cd stored query pid uid
        \<lparr>opt_threshold = None, opt_limit = lm, opt_sourceType = st\<rparr>
      = searchSimilar embedder cd stored query pid uid
          \<lparr>opt_threshold = Some 0.4, opt_limit = lm, opt_sourceType = st\<rparr>"
proof (intro conjI impI)
  let ?t = "case th of None \<Rightarrow> 0.4 | Some t \<Rightarrow> t"
  let ?n = "case lm of None \<Rightarrow> 10 | Some n \<Rightarrow> n"
  let ?given = "\<lambda>r. case st of None \<Rightarrow> True | Some t \<Rightarrow> t = [] \<or> source_type r = Some t"
  let ?o = "\<lparr>opt_threshold = th, opt_limit = lm, opt_sourceType = st\<rparr>"
  let ?row = "\<lambda>emb e. \<lparr>row_id = e_id e, row_content = e_content e,
                   similarity = 1 - cd (the (e_embedding e)) emb,
                   row_metadata = e_metadata e, source_type = e_source_type e,
                   source_id = e_source_id e\<rparr>"
  let ?scope = "\<lambda>emb e. e_project_id e = Some pid \<and> e_user_id e = Some uid
                        \<and> (\<exists>v. e_embedding e = Some v \<and> 1 - cd v emb > ?t)"
  have to: "threshold_of ?o = ?t" "limit_of ?o = ?n"
    by (simp_all add: threshold_of_def limit_of_def)
  have so: "of_source_type (opt_sourceType ?o) = ?given"
    by (rule ext) (auto simp: of_source_type_def split: option.split)
  assume a: "searchSimilar embedder cd stored query pid uid ?o = Inr res"
  then have "\<exists>emb data. embedder query = Inr emb
      \<and> similarity_search cd stored emb (Some ?t) (Some ?n) (Some pid) (Some uid) = Inr data
      \<and> res = filter ?given data"
    unfolding searchSimilar_def to so by (auto split: sum.splits)
  then obtain emb data where e: "embedder query = Inr emb"
    and d: "similarity_search cd stored emb (Some ?t) (Some ?n) (Some pid) (Some uid) = Inr data"
    and r: "res = filter ?given data"
    by auto
  from search_returns [OF d] obtain found where f: "0 \<le> ?n"
    "data = take (nat ?n) found"
    "sorted_wrt (\<lambda>a b. similarity a \<ge> similarity b) found"
    "mset found = mset (map (result_of cd emb)
        (filter (eligible cd emb ?t (Some pid) (Some uid)) stored))"
    by blast
  have s: "eligible cd emb ?t (Some pid) (Some uid) = ?scope emb"
    by (rule ext) (rule eligible_scoped)
  have m: "map (result_of cd emb) (filter (?scope emb) stored)
      = map (?row emb) (filter (?scope emb) stored)"
    by (rule map_cong [OF refl]) (auto simp: result_of_row)
  have rows: "mset found = mset (map (?row emb) (filter (?scope emb) stored))"
    using f(4) unfolding s m .
  have res: "res = filter ?given (take (nat ?n) found)"
    using r f(2) by simp
  show "\<exists>emb found.
          embedder query = Inr emb
        \<and> res = filter ?given (take (nat ?n) found)
        \<and> sorted_wrt (\<lambda>a b. similarity a \<ge> similarity b) found
        \<and> mset found = mset (map (?row emb) (filter (?scope emb) stored))"
    by (rule exI [of _ emb], rule exI [of _ found]) (intro conjI e res f(3) rows)
  from f have "sorted_wrt (\<lambda>a b. similarity a \<ge> similarity b) data"
    by (simp add: sorted_wrt_take)
  with r show "sorted_wrt (\<lambda>a b. similarity a \<ge> similarity b) res"
    by (simp add: sorted_wrt_filter)
  have "length res \<le> length data"
    using r by simp
  also have "\<dots> \<le> nat ?n"
    using f(2) by simp
  finally show "int (length res) \<le> ?n"
    using f(1) by linarith
  have "similarity x > ?t" if "x \<in> set res" for x
  proof -
    from that r f(2) have "x \<in> set found"
      by (auto dest: in_set_takeD)
    with f(4) show ?thesis
      by (rule found_above)
  qed
  moreover have "?given x" if "x \<in> set res" for x
    using that r by simp
  ultimately show "\<forall>r \<in> set res. similarity r > ?t \<and> ?given r"
    by simp
next
  let ?o = "\<lparr>opt_threshold = th, opt_limit = lm, opt_sourceType = st\<rparr>"
  assume "embedder query = Inr emb' \<and> 0 \<le> (case lm of None \<Rightarrow> 10 | Some n \<Rightarrow> n)"
  then show "\<exists>rows. searchSimilar embedder cd stored query pid uid ?o = Inr rows"
    by (simp add: searchSimilar_def similarity_search_def limit_of_def Let_def)
next
  show "searchSimilar embedder cd stored query pid uid
        \<lparr>opt_threshold = None, opt_limit = lm, opt_sourceType = st\<rparr>
      = searchSimilar embedder cd stored query pid uid
          \<lparr>opt_threshold = Some 0.4, opt_limit = lm, opt_sourceType = st\<rparr>"
    by (simp add: searchSimilar_def threshold_of_def limit_of_def split: sum.split)
qed

theorem C8_search_result_witness:
  "searchSimilar demo_embed demo_distance demo_table ''how do I reset my password''
      ''project-1'' ''user-1''
      \<lparr>opt_threshold = None, opt_limit = None, opt_sourceType = Some ''issue''\<rparr>
     = Inr [demo_issue_hit]
   \<and> similarity demo_issue_hit > 0.4
   \<and> source_type demo_issue_hit = Some ''issue''
   \<and> int (length [demo_issue_hit]) \<le> 10
   \<and> searchSimilar demo_embed demo_distance demo_table ''how do I reset my password''
      ''project-1'' ''user-1''
      \<lparr>opt_threshold = Some 0.4, opt_limit = None, opt_sourceType = Some ''issue''\<rparr>
     = Inr [demo_issue_hit]"
proof -
  let ?o = "\<lparr>opt_threshold = None, opt_limit = None, opt_sourceType = Some ''issue''\<rparr>"
  have s: "searchSimilar demo_embed demo_distance demo_table ''how do I reset my password''
      ''project-1'' ''user-1'' ?o = Inr [demo_issue_hit]"
    by (simp add: demo_search_table of_source_type_def demo_exact_def demo_hit_def
        demo_issue_hit_def)
  have e: "demo_embed ''how do I reset my password'' = Inr 26"
    by (simp add: demo_embed_def)
  show ?thesis
    using C8_search_result [of demo_embed demo_distance demo_table
        "''how do I reset my password''" "''project-1''" "''user-1''" None None
        "Some ''issue''" "[demo_issue_hit]" 26] s e
    by simp
qed

text \<open>
  With the limit 1 and the source type \<open>issue\<close> the search returns no row, although the
  table holds an issue of the searched project and user whose similarity to the query, 0.45,
  is above the threshold 0.4: the only row within the limit is the more similar row of
  another source type. Without a limit the same search returns the issue.
\<close>

theorem C8_source_type_after_limit_counterexample:
  "searchSimilar demo_embed demo_distance demo_table ''how do I reset my password''
      ''project-1'' ''user-1''
      \<lparr>opt_threshold = None, opt_limit = Some 1, opt_sourceType = Some ''issue''\<rparr>
     = Inr []
   \<and> searchSimilar demo_embed demo_distance demo_table ''how do I reset my password''
      ''project-1'' ''user-1''
      \<lparr>opt_threshold = None, opt_limit = None, opt_sourceType = Some ''issue''\<rparr>
     = Inr [demo_issue_hit]
   \<and> demo_issue_row \<in> set demo_table
   \<and> e_project_id demo_issue_row = Some ''project-1''
   \<and> e_user_id demo_issue_row = Some ''user-1''
   \<and> e_source_type demo_issue_row = Some ''issue''
   \<and> e_embedding demo_issue_row = Some 10
   \<and> demo_embed ''how do I reset my password'' = Inr 26
   \<and> 1 - demo_distance 10 26 = 0.45"
proof -
  have a: "searchSimilar demo_embed demo_distance demo_table ''how do I reset my password''
      ''project-1'' ''user-1''
      \<lparr>opt_threshold = None, opt_limit = Some 1, opt_sourceType = Some ''issue''\<rparr>
     = Inr []"
    by (simp add: demo_search_table_first of_source_type_def demo_exact_def demo_hit_def)
  have b: "searchSimilar demo_embed demo_distance demo_table ''how do I reset my password''
      ''project-1'' ''user-1''
      \<lparr>opt_threshold = None, opt_limit = None, opt_sourceType = Some ''issue''\<rparr>
     = Inr [demo_issue_hit]"
    by (simp add: demo_search_table of_source_type_def demo_exact_def demo_hit_def
        demo_issue_hit_def)
  have c: "demo_issue_row \<in> set demo_table"
    by (simp add: demo_table_def)
  have d: "e_project_id demo_issue_row = Some ''project-1''"
    "e_user_id demo_issue_row = Some ''user-1''"
    "e_source_type demo_issue_row = Some ''issue''"
    "e_embedding demo_issue_row = Some 10"
    by (simp_all add: demo_issue_row_def demo_row_def)
  have e: "demo_embed ''how do I reset my password'' = Inr 26"
    by (simp add: demo_embed_def)
  have f: "1 - demo_distance 10 26 = 0.45"
    by (simp add: demo_distance_def)
  show ?thesis
    by (intro conjI a b c d e f)
qed

section \<open>Properties of the embedding\<close>












section \<open>Properties of the chunkers\<close>

subsection \<open>Sentences\<close>

lemma run_append:
  "run st (a @ b) = (case run st a of None \<Rightarrow> None | Some st' \<Rightarrow> run st' b)"
  by (induction a arbitrary: st) (auto split: scan.splits)

lemma run_not_gap: "run st s = Some st' \<Longrightarrow> st \<noteq> In_gap \<Longrightarrow> st' \<noteq> In_gap"
  by (induction s arbitrary: st) (auto simp: scan_of_def split: if_splits scan.splits)

lemma sentences_from_run:
  "run st s = Some st' \<Longrightarrow> st \<noteq> In_gap \<Longrightarrow>
   sentences_from st cur (s @ t) = sentences_from st' (cur @ s) t"
proof (induction s arbitrary: st cur)
  case Nil
  then show ?case by simp
next
  case (Cons c cs)
  then show ?case
    by (cases st) (auto simp: scan_of_def split: if_splits)
qed

lemma sentences_from_gap_clean:
  "starts_clean t \<Longrightarrow> sentences_from In_gap [] t = sentences_from After_other [] t"
  by (cases t) (auto simp: starts_clean_def)

lemma join_Cons: "ys \<noteq> [] \<Longrightarrow> join sep (x # ys) = x @ sep @ join sep ys"
  by (cases ys) auto

lemma closed_nonempty: "run After_other s = Some After_punct \<Longrightarrow> s \<noteq> []"
  by (cases s) auto

lemma starts_clean_join:
  "sentence_seq (t # rest) \<Longrightarrow> starts_clean t \<Longrightarrow> starts_clean (join '' '' (t # rest))"
proof (cases rest)
  case Nil
  then show "starts_clean t \<Longrightarrow> starts_clean (join '' '' (t # rest))" by simp
next
  case (Cons u us)
  assume "sentence_seq (t # rest)" "starts_clean t"
  with Cons have "t \<noteq> []" by (auto dest: closed_nonempty)
  with \<open>starts_clean t\<close> Cons show "starts_clean (join '' '' (t # rest))"
    by (cases t) (auto simp: starts_clean_def)
qed

lemma split_join:
  "sentence_seq g \<Longrightarrow> g \<noteq> [] \<Longrightarrow> split_sentences (join '' '' g) = g"
proof (induction g rule: sentence_seq.induct)
  case 1
  then show ?case by simp
next
  case (2 s)
  then obtain st where "run After_other s = Some st" by auto
  from sentences_from_run [OF this, of "[]" "[]"] show ?case
    by (simp add: split_sentences_def)
next
  case (3 s t rest)
  then have r: "run After_other s = Some After_punct" and c: "starts_clean t"
    and g: "sentence_seq (t # rest)" by auto
  let ?J = "join '' '' (t # rest)"
  have "split_sentences (join '' '' (s # t # rest)) = sentences_from After_other [] (s @ CHR '' '' # ?J)"
    by (simp add: split_sentences_def)
  also have "\<dots> = sentences_from After_punct s (CHR '' '' # ?J)"
    using sentences_from_run [OF r, of "[]"] by simp
  also have "\<dots> = s # sentences_from In_gap [] ?J"
    by (simp add: is_ws_def)
  also have "\<dots> = s # split_sentences ?J"
    using starts_clean_join [OF g c] by (simp add: sentences_from_gap_clean split_sentences_def)
  also have "\<dots> = s # t # rest"
    using 3 g by simp
  finally show ?case .
qed


lemma sentences_from_nonempty: "sentences_from st cur s \<noteq> []"
  by (induction s arbitrary: st cur) (auto split: scan.splits)

lemma sentences_from_head:
  "st \<noteq> In_gap \<Longrightarrow> \<exists>p rest. sentences_from st cur s = (cur @ p) # rest"
proof (induction s arbitrary: st cur)
  case Nil
  then show ?case by simp
next
  case (Cons c cs)
  show ?case
  proof (cases "is_ws c")
    case True
    with Cons.prems Cons.IH [of After_other "cur @ [c]"] show ?thesis
      by (cases st) auto
  next
    case False
    with Cons.IH [of "scan_of c" "cur @ [c]"] show ?thesis
      by (auto simp: scan_of_def)
  qed
qed

lemma sentence_seq_Cons:
  "run After_other s = Some After_punct \<Longrightarrow> xs \<noteq> [] \<Longrightarrow> starts_clean (hd xs)
   \<Longrightarrow> sentence_seq xs \<Longrightarrow> sentence_seq (s # xs)"
  by (cases xs) auto

lemma sentence_seq_scan:
  "(st \<noteq> In_gap \<longrightarrow> run After_other cur = Some st \<longrightarrow> sentence_seq (sentences_from st cur s))
   \<and> (sentence_seq (sentences_from In_gap [] s)
       \<and> starts_clean (hd (sentences_from In_gap [] s)))"
proof (induction s arbitrary: st cur)
  case Nil
  show ?case by (simp add: starts_clean_def)
next
  case (Cons c cs)
  note IH = Cons.IH
  show ?case
  proof (cases "is_ws c")
    case True
    have gap: "sentence_seq (sentences_from In_gap [] cs)
       \<and> starts_clean (hd (sentences_from In_gap [] cs))"
      using IH [of In_gap "[]"] by simp
    have "sentence_seq (sentences_from st cur (c # cs))"
      if "st \<noteq> In_gap" "run After_other cur = Some st"
    proof (cases st)
      case After_punct
      with True that gap show ?thesis
        by (simp add: sentence_seq_Cons sentences_from_nonempty)
    next
      case After_other
      with that True have "run After_other (cur @ [c]) = Some After_other"
        by (simp add: run_append)
      with IH [of After_other "cur @ [c]"] True After_other show ?thesis
        by simp
    next
      case In_gap
      with that show ?thesis by simp
    qed
    with True gap show ?thesis
      by simp
  next
    case False
    have n: "scan_of c \<noteq> In_gap"
      by (simp add: scan_of_def)
    have "sentence_seq (sentences_from st cur (c # cs))"
      if "st \<noteq> In_gap" "run After_other cur = Some st"
    proof -
      from that False have "run After_other (cur @ [c]) = Some (scan_of c)"
        by (cases st) (simp_all add: run_append)
      with IH [of "scan_of c" "cur @ [c]"] False n show ?thesis
        by simp
    qed
    moreover have "sentence_seq (sentences_from In_gap [] (c # cs))"
      using IH [of "scan_of c" "[c]"] False n by simp
    moreover have "starts_clean (hd (sentences_from In_gap [] (c # cs)))"
      using sentences_from_head [OF n, of "[c]" cs] False
      by (auto simp: starts_clean_def)
    ultimately show ?thesis
      by blast
  qed
qed

lemma sentence_seq_split: "sentence_seq (split_sentences text)"
  using sentence_seq_scan [of After_other "[]" "text"] by (simp add: split_sentences_def)

lemma sentence_seq_append:
  "sentence_seq (xs @ ys) \<Longrightarrow> sentence_seq xs \<and> sentence_seq ys"
proof (induction xs rule: sentence_seq.induct)
  case 1
  then show ?case by simp
next
  case (2 s)
  then show ?case by (cases ys) auto
next
  case (3 s t rest)
  then show ?case by simp
qed

lemma sentence_seq_concat:
  "sentence_seq (concat groups) \<Longrightarrow> g \<in> set groups \<Longrightarrow> sentence_seq g"
  by (induction groups) (auto dest: sentence_seq_append)

lemma split_join_groups:
  assumes "sentence_seq (concat groups)" "[] \<notin> set groups"
  shows "concat (map (\<lambda>g. split_sentences (join '' '' g)) groups) = concat groups"
proof -
  have "split_sentences (join '' '' g) = g" if "g \<in> set groups" for g
  proof (rule split_join)
    show "sentence_seq g" using that assms(1) by (rule sentence_seq_concat [rotated])
    show "g \<noteq> []" using that assms(2) by auto
  qed
  then have "map (\<lambda>g. split_sentences (join '' '' g)) groups = groups"
    by (simp add: map_idI)
  then show ?thesis by simp
qed


lemma chunk_sentences_groups:
  "chunk_sentences maxWords ss chunks cur wc =
     chunks @ map (\<lambda>(i, g). make_chunk (join '' '' g) i 0)
       (enumerate (length chunks) (group_sentences maxWords ss cur wc))"
  by (induction ss arbitrary: chunks cur wc) (auto simp: Let_def)

lemma concat_groups: "concat (group_sentences maxWords ss cur wc) = cur @ ss"
  by (induction ss arbitrary: cur wc) (auto simp: Let_def)

lemma groups_nonempty: "[] \<notin> set (group_sentences maxWords ss cur wc)"
  by (induction ss arbitrary: cur wc) (auto simp: Let_def)

lemma groups_head:
  "cur \<noteq> [] \<Longrightarrow> \<exists>p rest. group_sentences maxWords ss cur wc = (cur @ p) # rest"
proof (induction ss arbitrary: cur wc)
  case Nil
  then show ?case by simp
next
  case (Cons s ss)
  let ?sw = "length (split_ws s)"
  show ?case
  proof (cases "int (wc + ?sw) > maxWords \<and> length cur > 0")
    case True
    then have "group_sentences maxWords (s # ss) cur wc
        = (cur @ []) # group_sentences maxWords ss [s] ?sw"
      by (simp add: Let_def)
    then show ?thesis by blast
  next
    case False
    obtain p rest where
      "group_sentences maxWords ss (cur @ [s]) (wc + ?sw) = ((cur @ [s]) @ p) # rest"
      using Cons.IH [of "cur @ [s]" "wc + ?sw"] by auto
    with False have "group_sentences maxWords (s # ss) cur wc = (cur @ (s # p)) # rest"
      by (simp add: Let_def)
    then show ?thesis by blast
  qed
qed

lemma map_snd_enumerate_join:
  "map (\<lambda>x. f (snd x)) (enumerate n gs) = map f gs"
  by (induction gs arbitrary: n) auto

lemma words_of_append: "words_of (xs @ ys) = words_of xs + words_of ys"
  by (simp add: words_of_def)

lemma words_of_single: "words_of [s] = length (split_ws s)"
  by (simp add: words_of_def)

lemma greedy_groups:
  "wc = words_of cur \<Longrightarrow> cur = [] \<or> fits maxWords cur \<Longrightarrow>
   greedy maxWords (group_sentences maxWords ss cur wc)"
proof (induction ss arbitrary: cur wc)
  case Nil
  then show ?case by auto
next
  case (Cons s ss)
  let ?sw = "length (split_ws s)"
  show ?case
  proof (cases "int (wc + ?sw) > maxWords \<and> length cur > 0")
    case True
    have g: "greedy maxWords (group_sentences maxWords ss [s] ?sw)"
      by (rule Cons.IH) (simp_all add: words_of_single fits_def)
    obtain p rest where h: "group_sentences maxWords ss [s] ?sw = ([s] @ p) # rest"
      using groups_head [of "[s]" maxWords ss ?sw] by auto
    from True Cons.prems have "fits maxWords cur"
      by auto
    with True g h Cons.prems(1) show ?thesis
      by (simp add: Let_def words_of_single)
  next
    case False
    have "fits maxWords (cur @ [s])"
    proof (cases "cur = []")
      case True
      then show ?thesis by (simp add: fits_def)
    next
      case False
      with \<open>\<not> (int (wc + ?sw) > maxWords \<and> length cur > 0)\<close> Cons.prems(1) show ?thesis
        by (simp add: fits_def words_of_append words_of_single)
    qed
    with Cons.IH [of "wc + ?sw" "cur @ [s]"] Cons.prems(1) False show ?thesis
      by (auto simp: Let_def words_of_append words_of_single)
  qed
qed

lemma fallback_contents:
  "map content (fallbackChunking text maxWords)
     = map (join '' '') (group_sentences maxWords (split_sentences text) [] 0)"
  by (simp add: fallbackChunking_def Let_def chunk_sentences_groups make_chunk_def
      comp_def case_prod_unfold map_snd_enumerate_join)


subsection \<open>Numbering\<close>

lemma rounds_done: "0 < m \<Longrightarrow> \<not> i < int n \<Longrightarrow> rounds n i m = 0"
proof -
  assume m: "0 < m" and "\<not> i < int n"
  then have "(real n - real_of_int i) / real_of_int m \<le> 0"
    by (simp add: divide_le_0_iff)
  then have "\<lceil>(real n - real_of_int i) / real_of_int m\<rceil> \<le> 0"
    by (simp add: ceiling_le_zero)
  then show ?thesis by (simp add: rounds_def)
qed

lemma rounds_step: "0 < m \<Longrightarrow> i < int n \<Longrightarrow> rounds n i m = Suc (rounds n (i + m) m)"
proof -
  assume m: "0 < m" and i: "i < int n"
  let ?x = "(real n - real_of_int i) / real_of_int m"
  have e: "(real n - real_of_int (i + m)) / real_of_int m = ?x - 1"
    using m by (simp add: field_simps)
  define c where "c = \<lceil>?x\<rceil>"
  have "0 < ?x" using m i by simp
  then have p: "0 < c" by (simp add: c_def)
  have "rounds n (i + m) m = nat (c - 1)"
    unfolding rounds_def e c_def by simp
  moreover have "rounds n i m = nat c"
    by (simp add: rounds_def c_def)
  ultimately show ?thesis
    using p by linarith
qed

lemma word_chunks_closed:
  "0 < m \<Longrightarrow>
   word_chunks words m i chunks =
     Some (chunks @ map (\<lambda>j. word_chunk words m (i + m * int j) (length chunks + j))
                      [0..<rounds (length words) i m])"
proof (induction "rounds (length words) i m" arbitrary: i chunks)
  case 0
  then have "\<not> i < int (length words)"
    using rounds_step [of m i "length words"] by auto
  then show ?case
    using 0 by (subst word_chunks.simps) simp
next
  case (Suc k)
  then have lt: "i < int (length words)"
    using rounds_done [of m i "length words"] by auto
  with Suc have k: "k = rounds (length words) (i + m) m"
    using rounds_step [of m i "length words"] by simp
  have "word_chunks words m i chunks
      = word_chunks words m (i + m) (chunks @ [word_chunk words m i (length chunks)])"
    using lt by (subst word_chunks.simps) simp
  also have "\<dots> = Some ((chunks @ [word_chunk words m i (length chunks)])
        @ map (\<lambda>j. word_chunk words m (i + m + m * int j) (Suc (length chunks) + j)) [0..<k])"
    using Suc.hyps(1) [OF k Suc.prems, of "chunks @ [word_chunk words m i (length chunks)]"]
    unfolding k by simp
  also have "map (\<lambda>j. word_chunk words m (i + m + m * int j) (Suc (length chunks) + j)) [0..<k]
      = map (\<lambda>j. word_chunk words m (i + m * int j) (length chunks + j)) [Suc 0..<Suc k]"
    by (simp add: map_Suc_upt [symmetric] del: upt_Suc) (simp add: algebra_simps)
  finally show ?case
    using Suc.hyps(2) [symmetric] by (simp add: upt_conv_Cons del: upt_Suc)
qed


lemma split_ws_from_nonempty: "split_ws_from inrun cur s \<noteq> []"
  by (induction s arbitrary: inrun cur) auto

lemma split_ws_length: "0 < length (split_ws s)"
  by (simp add: split_ws_def split_ws_from_nonempty)

lemma make_chunk_sel:
  "content (make_chunk c n t) = c" "chunkIndex (make_chunk c n t) = Suc n"
  "totalChunks (make_chunk c n t) = t"
  by (simp_all add: make_chunk_def)

lemma numbered_bounds:
  assumes "numbered chunks" "c \<in> set chunks"
  shows "1 \<le> chunkIndex c \<and> chunkIndex c \<le> totalChunks c \<and> totalChunks c = length chunks"
proof -
  from assms(2) obtain k where k: "k < length chunks" "c = chunks ! k"
    by (auto simp: in_set_conv_nth)
  from assms(1) have "map chunkIndex chunks ! k = [1..<Suc (length chunks)] ! k"
    and "map totalChunks chunks ! k = replicate (length chunks) (length chunks) ! k"
    by (simp_all add: numbered_def)
  with k show ?thesis
    by (simp del: upt_Suc)
qed

lemma client_fallback_numbered:
  assumes "0 < m"
  shows "\<exists>chunks. client_fallbackChunking text m = Some chunks \<and> numbered chunks
          \<and> chunks \<noteq> [] \<and> (text = [] \<longrightarrow> map content chunks = [[]])"
proof -
  let ?words = "split_ws text"
  let ?n = "rounds (length ?words) 0 m"
  let ?chunks = "map (\<lambda>j. word_chunk ?words m (m * int j) j) [0..<?n]"
  have r: "client_fallbackChunking text m = Some ?chunks"
    using word_chunks_closed [OF assms, of ?words 0 "[]"]
    by (simp add: client_fallbackChunking_def)
  have t: "nat \<lceil>real (length ?words) / real_of_int m\<rceil> = ?n"
    by (simp add: rounds_def)
  have "map chunkIndex ?chunks = map Suc [0..<?n]"
    by (simp add: word_chunk_def make_chunk_sel comp_def)
  then have i: "map chunkIndex ?chunks = [1..<Suc (length ?chunks)]"
    by (simp add: map_Suc_upt del: upt_Suc)
  have "map totalChunks ?chunks = map (\<lambda>j. ?n) [0..<?n]"
    by (simp add: word_chunk_def make_chunk_sel comp_def t)
  then have c: "map totalChunks ?chunks = replicate (length ?chunks) (length ?chunks)"
    by (simp add: map_replicate_const)
  have p: "0 < ?n"
    using rounds_step [OF assms, of 0 "length ?words"] split_ws_length [of "text"] by simp
  have e: "map content ?chunks = [[]]" if "text = []"
  proof -
    from that have w: "?words = [[]]"
      by (simp add: split_ws_def)
    have "rounds 1 m m = 0"
      using assms by (intro rounds_done) auto
    then have "?n = 1"
      using rounds_step [OF assms, of 0 1] w by simp
    then show ?thesis
      using assms w by (simp add: word_chunk_def make_chunk_sel js_slice_def)
  qed
  from r i c p e show ?thesis
    by (auto simp: numbered_def)
qed

lemma map_fst_enumerate_fun:
  "map (\<lambda>x. f (fst x)) (enumerate n xs) = map f [n..<n + length xs]"
proof (induction xs arbitrary: n)
  case Nil
  show ?case by simp
next
  case (Cons x xs)
  have "[n..<n + length (x # xs)] = n # [Suc n..<Suc n + length xs]"
    by (simp add: upt_conv_Cons del: upt_Suc)
  with Cons [of "Suc n"] show ?case
    by simp
qed

lemma fallback_numbered:
  "numbered (fallbackChunking text maxWords) \<and> fallbackChunking text maxWords \<noteq> []
   \<and> (text = [] \<longrightarrow> map content (fallbackChunking text maxWords) = [[]])"
proof -
  let ?G = "group_sentences maxWords (split_sentences text) [] 0"
  have f: "fallbackChunking text maxWords =
      map (\<lambda>c. c\<lparr>totalChunks := length ?G\<rparr>)
        (map (\<lambda>(i, g). make_chunk (join '' '' g) i 0) (enumerate 0 ?G))"
    by (simp add: fallbackChunking_def Let_def chunk_sentences_groups)
  have "map chunkIndex (fallbackChunking text maxWords) = map Suc [0..<length ?G]"
    unfolding f by (simp add: comp_def case_prod_unfold make_chunk_sel map_fst_enumerate_fun)
  then have i: "map chunkIndex (fallbackChunking text maxWords) = [1..<Suc (length ?G)]"
    by (simp add: map_Suc_upt del: upt_Suc)
  have t: "map totalChunks (fallbackChunking text maxWords) = replicate (length ?G) (length ?G)"
    unfolding f by (simp add: comp_def map_replicate_const)
  have l: "length (fallbackChunking text maxWords) = length ?G"
    unfolding f by simp
  have "concat ?G = split_sentences text"
    by (simp add: concat_groups)
  then have "?G \<noteq> []"
    using sentences_from_nonempty [of After_other "[]" "text"]
    by (auto simp: split_sentences_def)
  with l have n: "fallbackChunking text maxWords \<noteq> []"
    by auto
  have e: "map content (fallbackChunking text maxWords) = [[]]" if "text = []"
    using that by (simp add: fallback_contents split_sentences_def)
  from i t l n e show ?thesis
    by (simp add: numbered_def)
qed

lemma processed_numbered:
  "numbered (processedChunks chunks) \<and> length (processedChunks chunks) = length chunks"
proof -
  have "map chunkIndex (processedChunks chunks) = map Suc [0..<length chunks]"
    by (simp add: processedChunks_def comp_def case_prod_unfold map_fst_enumerate_fun)
  then have "map chunkIndex (processedChunks chunks) = [1..<Suc (length chunks)]"
    by (simp add: map_Suc_upt del: upt_Suc)
  moreover have "map totalChunks (processedChunks chunks)
      = replicate (length chunks) (length chunks)"
    by (simp add: processedChunks_def comp_def case_prod_unfold map_replicate_const)
  moreover have "length (processedChunks chunks) = length chunks"
    by (simp add: processedChunks_def)
  ultimately show ?thesis
    by (simp add: numbered_def)
qed


subsection \<open>Whole sentences\<close>

lemma cats_sentences:
  "split_sentences cats_and_dogs = [''Cats are mammals.'', ''Dogs are mammals too.'']"
  by (simp add: cats_and_dogs_def split_sentences_def is_ws_def scan_of_def is_end_punct_def)

lemma cats_fallback:
  "map content (fallbackChunking cats_and_dogs 3)
     = [''Cats are mammals.'', ''Dogs are mammals too.'']"
  by (simp add: fallback_contents cats_sentences split_ws_def is_ws_def Let_def)

lemma cats_client:
  "map_option (map content) (client_fallbackChunking cats_and_dogs 3)
     = Some [''Cats are mammals.'', ''Dogs are mammals'', ''too.'']"
proof -
  let ?words = "[''Cats'', ''are'', ''mammals.'', ''Dogs'', ''are'', ''mammals'', ''too.'']"
  have w: "split_ws cats_and_dogs = ?words"
    by (simp add: cats_and_dogs_def split_ws_def is_ws_def)
  have r: "rounds (length ?words) 0 3 = 3"
    by (simp add: rounds_def)
  have u: "[0..<3] = [0, 1, 2]"
    by (simp add: upt_conv_Cons)
  have c: "word_chunks ?words 3 0 []
      = Some (map (\<lambda>j. word_chunk ?words 3 (3 * int j) j) [0, 1, 2])"
    using word_chunks_closed [of 3 ?words 0 "[]"] unfolding r u by simp
  show ?thesis
    unfolding client_fallbackChunking_def w c
    by (simp add: word_chunk_def make_chunk_sel js_slice_def)
qed

lemma chunk_content_key_missing:
  "key_error env = Some msg \<Longrightarrow>
   chunk_content env False (Inr \<lparr>content_field = Some text, maxWordsPerChunk = w\<rparr>)
     = Chunks_ok (fallbackChunking text 75)"
  by (simp add: chunk_content_def)

lemma chunkContent_key_missing:
  "service_reachable env \<Longrightarrow> key_error env = Some msg \<Longrightarrow>
   chunkContent env text maxWords_arg = Some (fallbackChunking text 75)"
  by (simp add: chunkContent_def Let_def chunk_content_key_missing)

text \<open>
  The sentence fallback of the handler never splits a sentence. Its chunks are the groups of
  whole sentences, joined by a blank, of a division of the sentences of the text into
  non-empty groups taken in order; the groups are greedy for the word limit; and the
  sentences of the chunks, one chunk after the other, are the sentences of the text. Every
  sentence of the text but the last ends with end-of-sentence punctuation.
\<close>

lemma fallback_whole_sentences:
  "(\<exists>groups.
      concat groups = split_sentences text
    \<and> [] \<notin> set groups
    \<and> greedy maxWords groups
    \<and> map content (fallbackChunking text maxWords) = map (join '' '') groups
    \<and> concat (map (\<lambda>chunk. split_sentences (content chunk)) (fallbackChunking text maxWords))
        = split_sentences text)
   \<and> sentence_seq (split_sentences text)"
proof (intro conjI)
  let ?groups = "group_sentences maxWords (split_sentences text) [] 0"
  have c: "concat ?groups = split_sentences text"
    by (simp add: concat_groups)
  have n: "[] \<notin> set ?groups"
    by (rule groups_nonempty)
  have g: "greedy maxWords ?groups"
    by (rule greedy_groups) (simp_all add: words_of_def)
  have m: "map content (fallbackChunking text maxWords) = map (join '' '') ?groups"
    by (rule fallback_contents)
  have "map (\<lambda>chunk. split_sentences (content chunk)) (fallbackChunking text maxWords)
      = map split_sentences (map content (fallbackChunking text maxWords))"
    by simp
  also have "\<dots> = map (\<lambda>g. split_sentences (join '' '' g)) ?groups"
    unfolding m by simp
  finally have "concat (map (\<lambda>chunk. split_sentences (content chunk))
        (fallbackChunking text maxWords)) = concat ?groups"
    using split_join_groups [of ?groups] n c sentence_seq_split [of "text"] by simp
  then have r: "concat (map (\<lambda>chunk. split_sentences (content chunk))
        (fallbackChunking text maxWords)) = split_sentences text"
    using c by simp
  show "\<exists>groups.
      concat groups = split_sentences text
    \<and> [] \<notin> set groups
    \<and> greedy maxWords groups
    \<and> map content (fallbackChunking text maxWords) = map (join '' '') groups
    \<and> concat (map (\<lambda>chunk. split_sentences (content chunk)) (fallbackChunking text maxWords))
        = split_sentences text"
    by (rule exI [of _ ?groups]) (intro conjI c n g m r)
  show "sentence_seq (split_sentences text)"
    by (rule sentence_seq_split)
qed

lemma cats_fallback_75:
  "map content (fallbackChunking cats_and_dogs 75) = [''Cats are mammals. Dogs are mammals too.'']"
  by (simp add: fallback_contents cats_sentences split_ws_def is_ws_def Let_def)

lemma cats_words:
  "length (split_ws cats_and_dogs) = 7"
  by (simp add: cats_and_dogs_def split_ws_def is_ws_def)

lemma chunk_content_throws:
  "key_error env = None \<Longrightarrow> text \<noteq> [] \<Longrightarrow> segmentation env text m = Oracle_throws msg \<Longrightarrow>
   chunk_content env False (Inr \<lparr>content_field = Some text, maxWordsPerChunk = Some m\<rparr>)
     = Chunk_failure msg"
  by (simp add: chunk_content_def)

lemma chunkContent_fails:
  "key_error env = None \<Longrightarrow> text \<noteq> [] \<Longrightarrow> segmentation env text m = Oracle_throws msg \<Longrightarrow>
   chunkContent env text (Some m) = client_fallbackChunking text m"
  by (simp add: chunkContent_def Let_def chunk_content_throws)

text \<open>
  Claim C2 at the text \<^verbatim>\<open>Cats are mammals. Dogs are mammals too.\<close>, of two sentences and
  seven words, with the word limit 3, when the model gives no text. The handler does not
  reach its sentence fallback: the body of the request has been read, the second read in
  the handler of the exception throws, and the answer is the failure. The client then falls
  back to windows of three words, and the second sentence is split across the second and
  the third chunk. The sentence fallback of the handler, on the same text and limit, returns
  the two sentences whole. The handler reaches it only when the service account key is
  missing, and then with the limit 75 in place of the limit of the request: the two
  sentences come back as one chunk of seven words.
\<close>

theorem C2_client_fallback_splits_sentence:
  "split_sentences cats_and_dogs = [''Cats are mammals.'', ''Dogs are mammals too.'']
   \<and> length (split_ws cats_and_dogs) = 7
   \<and> chunk_content failing_env False
        (Inr \<lparr>content_field = Some cats_and_dogs, maxWordsPerChunk = Some 3\<rparr>)
      = Chunk_failure ''No response text from Vertex AI''
   \<and> map_option (map content) (chunkContent failing_env cats_and_dogs (Some 3))
      = Some [''Cats are mammals.'', ''Dogs are mammals'', ''too.'']
   \<and> map content (fallbackChunking cats_and_dogs 3)
      = [''Cats are mammals.'', ''Dogs are mammals too.'']
   \<and> map_option (map content) (chunkContent keyless_env cats_and_dogs (Some 3))
      = Some [''Cats are mammals. Dogs are mammals too.'']"
proof -
  have ne: "cats_and_dogs \<noteq> []"
    by (simp add: cats_and_dogs_def)
  have k: "key_error failing_env = None"
    and o: "segmentation failing_env cats_and_dogs 3
        = Oracle_throws ''No response text from Vertex AI''"
    by (simp_all add: failing_env_def)
  have a: "chunk_content failing_env False
        (Inr \<lparr>content_field = Some cats_and_dogs, maxWordsPerChunk = Some 3\<rparr>)
      = Chunk_failure ''No response text from Vertex AI''"
    using k ne o by (rule chunk_content_throws)
  have "chunkContent failing_env cats_and_dogs (Some 3) = client_fallbackChunking cats_and_dogs 3"
    using k ne o by (rule chunkContent_fails)
  then have b: "map_option (map content) (chunkContent failing_env cats_and_dogs (Some 3))
      = Some [''Cats are mammals.'', ''Dogs are mammals'', ''too.'']"
    by (simp only: cats_client)
  have "chunkContent keyless_env cats_and_dogs (Some 3) = Some (fallbackChunking cats_and_dogs 75)"
    by (rule chunkContent_key_missing) (simp_all add: keyless_env_def silent_env_def)
  then have c: "map_option (map content) (chunkContent keyless_env cats_and_dogs (Some 3))
      = Some [''Cats are mammals. Dogs are mammals too.'']"
    by (simp add: cats_fallback_75)
  show ?thesis
    by (intro conjI cats_sentences cats_words a b cats_fallback c)
qed

subsection \<open>The chunks of a text\<close>

lemma chunk_content_empty:
  "key_error env = None \<Longrightarrow>
   chunk_content env False (Inr \<lparr>content_field = Some [], maxWordsPerChunk = w\<rparr>)
     = Chunk_failure ''Content is required''"
  by (simp add: chunk_content_def)

lemma chunk_content_oracle:
  "key_error env = None \<Longrightarrow> text \<noteq> [] \<Longrightarrow>
   chunk_content env False (Inr \<lparr>content_field = Some text, maxWordsPerChunk = Some m\<rparr>)
     = (case segmentation env text m of
          Oracle_throws msg \<Rightarrow> Chunk_failure msg
        | Oracle_chunks chunks \<Rightarrow> Chunks_ok (processedChunks chunks))"
  by (simp add: chunk_content_def)

lemma chunkContent_oracle:
  "service_reachable env \<Longrightarrow> key_error env = None \<Longrightarrow> text \<noteq> [] \<Longrightarrow>
   segmentation env text (case maxWords_arg of None \<Rightarrow> 75 | Some n \<Rightarrow> n) = Oracle_chunks chunks
   \<Longrightarrow> chunkContent env text maxWords_arg = Some (processedChunks chunks)"
  by (simp add: chunkContent_def Let_def chunk_content_oracle)

lemma chunkContent_unreachable:
  "\<not> service_reachable env \<Longrightarrow>
   chunkContent env text maxWords_arg
     = client_fallbackChunking text (case maxWords_arg of None \<Rightarrow> 75 | Some n \<Rightarrow> n)"
  by (simp add: chunkContent_def Let_def)

lemma chunkContent_empty:
  "key_error env = None \<Longrightarrow>
   chunkContent env [] maxWords_arg
     = client_fallbackChunking [] (case maxWords_arg of None \<Rightarrow> 75 | Some n \<Rightarrow> n)"
  by (simp add: chunkContent_def Let_def chunk_content_empty)

lemma chunkContent_throws:
  "key_error env = None \<Longrightarrow> text \<noteq> [] \<Longrightarrow>
   segmentation env text (case maxWords_arg of None \<Rightarrow> 75 | Some n \<Rightarrow> n) = Oracle_throws msg
   \<Longrightarrow> chunkContent env text maxWords_arg
       = client_fallbackChunking text (case maxWords_arg of None \<Rightarrow> 75 | Some n \<Rightarrow> n)"
  by (simp add: chunkContent_def Let_def chunk_content_oracle)

text \<open>
  Claim C7, as the chunkers compute it, for a positive word limit. Chunking returns; every
  returned chunk has a \<open>chunkIndex\<close> from 1 to \<open>totalChunks\<close>, and \<open>totalChunks\<close> is the
  number of returned chunks; for a text that is not empty, no chunk is returned exactly when
  the model-assisted path succeeds with an empty array.
\<close>

theorem C7_chunk_numbering:
  "0 < (case maxWords_arg of None \<Rightarrow> 75 | Some n \<Rightarrow> n) \<longrightarrow>
   (\<exists>chunks.
       chunkContent env text maxWords_arg = Some chunks
     \<and> (\<forall>c \<in> set chunks. 1 \<le> chunkIndex c \<and> chunkIndex c \<le> totalChunks c
                            \<and> totalChunks c = length chunks)
     \<and> (text \<noteq> [] \<longrightarrow>
          (chunks = [] \<longleftrightarrow>
             service_reachable env \<and> key_error env = None
             \<and> segmentation env text (case maxWords_arg of None \<Rightarrow> 75 | Some n \<Rightarrow> n)
                 = Oracle_chunks [])))"
proof
  let ?m = "case maxWords_arg of None \<Rightarrow> 75 | Some n \<Rightarrow> n"
  let ?none = "service_reachable env \<and> key_error env = None \<and> text \<noteq> []
          \<and> segmentation env text ?m = Oracle_chunks []"
  assume m: "0 < ?m"
  from client_fallback_numbered [OF m, of "text"]
  obtain chunks where cs: "client_fallbackChunking text ?m = Some chunks \<and> numbered chunks
      \<and> chunks \<noteq> [] \<and> (text = [] \<longrightarrow> map content chunks = [[]])" ..
  then have c: "client_fallbackChunking text ?m = Some chunks" "numbered chunks"
      "chunks \<noteq> []" "text = [] \<longrightarrow> map content chunks = [[]]"
    by (rule conjunct1, rule conjunct2 [THEN conjunct1],
        rule conjunct2 [THEN conjunct2, THEN conjunct1],
        rule conjunct2 [THEN conjunct2, THEN conjunct2])
  have pack: "\<exists>chunks. chunkContent env text maxWords_arg = Some chunks \<and> numbered chunks
      \<and> (chunks = [] \<longleftrightarrow> ?none) \<and> (text = [] \<longrightarrow> map content chunks = [[]])"
    if "chunkContent env text maxWords_arg = Some X" "numbered X" "X = [] \<longleftrightarrow> ?none"
       "text = [] \<longrightarrow> map content X = [[]]" for X
    by (rule exI [of _ X]) (intro conjI that)
  have "\<exists>chunks. chunkContent env text maxWords_arg = Some chunks \<and> numbered chunks
      \<and> (chunks = [] \<longleftrightarrow> ?none) \<and> (text = [] \<longrightarrow> map content chunks = [[]])"
  proof (cases "service_reachable env")
    case False
    show ?thesis
    proof (rule pack)
      show "chunkContent env text maxWords_arg = Some chunks"
        using False by (simp add: chunkContent_unreachable c(1))
      show "numbered chunks" by (rule c(2))
      show "chunks = [] \<longleftrightarrow> ?none" using False c(3) by simp
      show "text = [] \<longrightarrow> map content chunks = [[]]" by (rule c(4))
    qed
  next
    case r: True
    show ?thesis
    proof (cases "key_error env")
      case (Some msg)
      show ?thesis
      proof (rule pack)
        show "chunkContent env text maxWords_arg = Some (fallbackChunking text 75)"
          using r Some by (simp add: chunkContent_key_missing)
        show "numbered (fallbackChunking text 75)"
          using fallback_numbered [of "text" 75] by simp
        show "fallbackChunking text 75 = [] \<longleftrightarrow> ?none"
          using fallback_numbered [of "text" 75] Some by simp
        show "text = [] \<longrightarrow> map content (fallbackChunking text 75) = [[]]"
          using fallback_numbered [of "text" 75] by simp
      qed
    next
      case k: None
      show ?thesis
      proof (cases "text = []")
        case True
        show ?thesis
        proof (rule pack)
          show "chunkContent env text maxWords_arg = Some chunks"
            using k True c(1) by (simp add: chunkContent_empty)
          show "numbered chunks" by (rule c(2))
          show "chunks = [] \<longleftrightarrow> ?none" using True c(3) by simp
          show "text = [] \<longrightarrow> map content chunks = [[]]" by (rule c(4))
        qed
      next
        case t: False
        show ?thesis
        proof (cases "segmentation env text ?m")
          case (Oracle_throws msg)
          show ?thesis
          proof (rule pack)
            show "chunkContent env text maxWords_arg = Some chunks"
              using k t Oracle_throws by (simp add: chunkContent_throws c(1))
            show "numbered chunks" by (rule c(2))
            show "chunks = [] \<longleftrightarrow> ?none" using Oracle_throws c(3) by simp
            show "text = [] \<longrightarrow> map content chunks = [[]]" by (rule c(4))
          qed
        next
          case (Oracle_chunks parsed)
          show ?thesis
          proof (rule pack)
            show "chunkContent env text maxWords_arg = Some (processedChunks parsed)"
              using r k t Oracle_chunks by (simp add: chunkContent_oracle)
            show "numbered (processedChunks parsed)"
              using processed_numbered [of parsed] by simp
            have "length (processedChunks parsed) = length parsed"
              using processed_numbered [of parsed] by simp
            then have "processedChunks parsed = [] \<longleftrightarrow> parsed = []"
              by (simp only: length_0_conv [symmetric])
            then show "processedChunks parsed = [] \<longleftrightarrow> ?none"
              using r k t Oracle_chunks by simp
            show "text = [] \<longrightarrow> map content (processedChunks parsed) = [[]]"
              using t by simp
          qed
        qed
      qed
    qed
  qed
  then obtain result where rs: "chunkContent env text maxWords_arg = Some result
      \<and> numbered result \<and> (result = [] \<longleftrightarrow> ?none)
      \<and> (text = [] \<longrightarrow> map content result = [[]])" ..
  then have res: "chunkContent env text maxWords_arg = Some result"
      "numbered result" "result = [] \<longleftrightarrow> ?none" "text = [] \<longrightarrow> map content result = [[]]"
    by (rule conjunct1, rule conjunct2 [THEN conjunct1],
        rule conjunct2 [THEN conjunct2, THEN conjunct1],
        rule conjunct2 [THEN conjunct2, THEN conjunct2])
  have bounds: "\<forall>c \<in> set result. 1 \<le> chunkIndex c \<and> chunkIndex c \<le> totalChunks c
                            \<and> totalChunks c = length result"
    using numbered_bounds [OF res(2)] by blast
  have empty: "text \<noteq> [] \<longrightarrow>
          (result = [] \<longleftrightarrow>
             service_reachable env \<and> key_error env = None
             \<and> segmentation env text ?m = Oracle_chunks [])"
    by (simp add: res(3))
  show "\<exists>chunks.
       chunkContent env text maxWords_arg = Some chunks
     \<and> (\<forall>c \<in> set chunks. 1 \<le> chunkIndex c \<and> chunkIndex c \<le> totalChunks c
                            \<and> totalChunks c = length chunks)
     \<and> (text \<noteq> [] \<longrightarrow>
          (chunks = [] \<longleftrightarrow>
             service_reachable env \<and> key_error env = None
             \<and> segmentation env text ?m = Oracle_chunks []))"
    by (rule exI [of _ result]) (intro conjI res(1) bounds empty)
qed


theorem C7_chunk_numbering_witness:
  "\<exists>chunks.
       chunkContent down_env cats_and_dogs (Some 3) = Some chunks
     \<and> chunks \<noteq> []
     \<and> (\<forall>c \<in> set chunks. 1 \<le> chunkIndex c \<and> chunkIndex c \<le> totalChunks c
                            \<and> totalChunks c = length chunks)"
proof -
  have "\<exists>chunks.
       chunkContent down_env cats_and_dogs (Some 3) = Some chunks
     \<and> (\<forall>c \<in> set chunks. 1 \<le> chunkIndex c \<and> chunkIndex c \<le> totalChunks c
                            \<and> totalChunks c = length chunks)
     \<and> (cats_and_dogs \<noteq> [] \<longrightarrow>
          (chunks = [] \<longleftrightarrow>
             service_reachable down_env \<and> key_error down_env = None
             \<and> segmentation down_env cats_and_dogs (case Some 3 of None \<Rightarrow> 75 | Some n \<Rightarrow> n)
                 = Oracle_chunks []))"
    by (rule C7_chunk_numbering [of "Some 3" down_env cats_and_dogs, THEN mp]) simp
  then obtain chunks where c:
    "chunkContent down_env cats_and_dogs (Some 3) = Some chunks
     \<and> (\<forall>c \<in> set chunks. 1 \<le> chunkIndex c \<and> chunkIndex c \<le> totalChunks c
                            \<and> totalChunks c = length chunks)
     \<and> (cats_and_dogs \<noteq> [] \<longrightarrow>
          (chunks = [] \<longleftrightarrow>
             service_reachable down_env \<and> key_error down_env = None
             \<and> segmentation down_env cats_and_dogs (case Some 3 of None \<Rightarrow> 75 | Some n \<Rightarrow> n)
                 = Oracle_chunks []))" ..
  have r: "\<not> service_reachable down_env" "cats_and_dogs \<noteq> []"
    by (simp_all add: down_env_def cats_and_dogs_def)
  from c r have n: "chunks \<noteq> []"
    by simp
  show ?thesis
    by (rule exI [of _ chunks])
       (intro conjI c [THEN conjunct1] n c [THEN conjunct2, THEN conjunct1])
qed

text \<open>
  For the empty text the chunker returns one chunk, with empty content, and for a text that
  is not empty it returns no chunk when the model answers with the empty array.
\<close>

theorem C7_chunk_count_counterexample:
  "map_option (map content) (chunkContent silent_env [] None) = Some [[]]
   \<and> chunkContent silent_env ''Cats are mammals.'' None = Some []"
proof -
  obtain chunks where "client_fallbackChunking [] 75 = Some chunks" "map content chunks = [[]]"
    using client_fallback_numbered [of 75 "[]"] by auto
  then have "map_option (map content) (chunkContent silent_env [] None) = Some [[]]"
    by (simp add: chunkContent_empty silent_env_def)
  moreover have "chunkContent silent_env ''Cats are mammals.'' None = Some []"
    using chunkContent_oracle [of silent_env "''Cats are mammals.''" None "[]"]
    by (simp add: silent_env_def processedChunks_def)
  ultimately show ?thesis
    by simp
qed



end
